theory Spec2Isabelle
  imports Main "HOL-Library.AList"
begin

section \<open>Python values, exceptions and collaborators\<close>

text \<open>
  The cluster commands of \<^verbatim>\<open>saharaclient/osc/v1/clusters.py\<close> move JSON-like documents
  between the command line, a REST client and the display. A document is a \<open>pyval\<close>;
  \<open>Resource\<close> is an object handed out by a client manager (attributes, \<^verbatim>\<open>to_dict()\<close>),
  \<open>JDict\<close> a plain dictionary. Dictionaries are association lists read through
  \<open>map_of\<close>; their keys are strings and JSON numbers are integers.
\<close>

datatype pyval =
    JNone
  | JBool bool
  | JInt int
  | JStr string
  | JList "pyval list"
  | JDict "(string \<times> pyval) list"
  | Resource "(string \<times> pyval) list"

type_synonym pydict = "(string \<times> pyval) list"

text \<open>
  Exceptions. \<open>Raised\<close> is whatever a collaborator raises (an API error, a missing file);
  \<open>Unsupported\<close> marks Python behaviour outside the modelled fragment (a dictionary key
  that is not a string).
\<close>

datatype error =
    CommandError string
  | KeyError string
  | AttributeError string
  | TypeError
  | ValueError
  | UsageError string
  | Raised pyval
  | Unsupported string

datatype manager = Clusters | ClusterTemplates | Images | NodeGroupTemplates

text \<open>The calls the commands make on their collaborators, with their arguments.\<close>

datatype request =
    ReadBlobFileContents string
  | GetResource manager pyval
  | GetResourceId manager pyval
  | FindAttr string string
  | ClustersCreate pydict
  | ClustersList pydict
  | ClustersGet pyval
  | ClustersDelete pyval
  | ClustersUpdate pyval pydict
  | ClustersScale pyval pyval
  | WaitForStatus pyval
  | WaitForDelete pyval

text \<open>
  What a run leaves behind: every collaborator call with its outcome, and every line
  written with \<^verbatim>\<open>self.log.error\<close>, in order.
\<close>

datatype event =
    Called request "error + pyval"
  | LogError string pyval

text \<open>
  The collaborators are parameters. \<open>respond\<close> answers a call and may depend on everything
  that happened before (the remote service has state); an \<open>Inl\<close> answer is an exception
  raised by the collaborator. The other fields are the pure library functions the module
  uses: \<^verbatim>\<open>json.loads\<close> (\<open>Inl\<close> carries the text of the ValueError),
  \<^verbatim>\<open>osc_utils.format_list\<close>, \<^verbatim>\<open>'%s' % x\<close>, \<^verbatim>\<open>int(s)\<close>, and the helpers of ListClusters.
\<close>

record collaborators =
  respond :: "event list \<Rightarrow> request \<Rightarrow> error + pyval"
  json_loads :: "string \<Rightarrow> string + pyval"
  format_list :: "pyval \<Rightarrow> error + pyval"
  py_str :: "pyval \<Rightarrow> string"
  py_int :: "string \<Rightarrow> int option"
  get_by_name_substring :: "pyval \<Rightarrow> string \<Rightarrow> error + pyval"
  prepare_column_headers :: "string list \<Rightarrow> pydict \<Rightarrow> string list"
  get_item_properties :: "pyval \<Rightarrow> string list \<Rightarrow> error + pyval list"

subsection \<open>Exceptions as values\<close>

definition ebind :: "error + 'a \<Rightarrow> ('a \<Rightarrow> error + 'b) \<Rightarrow> error + 'b" where
  "ebind r f = (case r of Inl e \<Rightarrow> Inl e | Inr x \<Rightarrow> f x)"

fun emap :: "('a \<Rightarrow> error + 'b) \<Rightarrow> 'a list \<Rightarrow> error + 'b list" where
  "emap f [] = Inr []"
| "emap f (x # xs) = ebind (f x) (\<lambda>y. ebind (emap f xs) (\<lambda>ys. Inr (y # ys)))"

subsection \<open>Actions: a result or an exception, and the events so far\<close>

type_synonym 'a act = "event list \<Rightarrow> (error + 'a) \<times> event list"

definition ret :: "'a \<Rightarrow> 'a act" where
  "ret x t = (Inr x, t)"

definition throw :: "error \<Rightarrow> 'a act" where
  "throw e t = (Inl e, t)"

definition lift :: "error + 'a \<Rightarrow> 'a act" where
  "lift r t = (r, t)"

definition andthen :: "'a act \<Rightarrow> ('a \<Rightarrow> 'b act) \<Rightarrow> 'b act" where
  "andthen m f t = (case m t of (Inl e, t') \<Rightarrow> (Inl e, t') | (Inr x, t') \<Rightarrow> f x t')"

definition call :: "collaborators \<Rightarrow> request \<Rightarrow> pyval act" where
  "call C r t = (respond C t r, t @ [Called r (respond C t r)])"

definition log_error :: "string \<Rightarrow> pyval \<Rightarrow> unit act" where
  "log_error msg a t = (Inr (), t @ [LogError msg a])"

subsection \<open>Python's data operations\<close>

text \<open>Truthiness, as \<^verbatim>\<open>if x:\<close> and \<^verbatim>\<open>not x\<close> read it.\<close>

fun truthy :: "pyval \<Rightarrow> bool" where
  "truthy JNone = False"
| "truthy (JBool b) = b"
| "truthy (JInt n) = (n \<noteq> 0)"
| "truthy (JStr s) = (s \<noteq> [])"
| "truthy (JList xs) = (xs \<noteq> [])"
| "truthy (JDict d) = (d \<noteq> [])"
| "truthy (Resource d) = True"

text \<open>An optional command-line string: \<open>given\<close> is its value when it is truthy.\<close>

fun given :: "string option \<Rightarrow> string option" where
  "given None = None"
| "given (Some s) = (if s = [] then None else Some s)"

fun opt_str :: "string option \<Rightarrow> pyval" where
  "opt_str None = JNone"
| "opt_str (Some s) = JStr s"

fun opt_bool :: "bool option \<Rightarrow> pyval" where
  "opt_bool None = JNone"
| "opt_bool (Some b) = JBool b"

fun opt_int :: "int option \<Rightarrow> pyval" where
  "opt_int None = JNone"
| "opt_int (Some n) = JInt n"

text \<open>\<^verbatim>\<open>x[k]\<close> with a string key, \<^verbatim>\<open>x.k\<close>, \<^verbatim>\<open>x.to_dict()\<close>, \<^verbatim>\<open>for y in x\<close>.\<close>

definition dict_lookup :: "pydict \<Rightarrow> string \<Rightarrow> error + pyval" where
  "dict_lookup d k = (case map_of d k of None \<Rightarrow> Inl (KeyError k) | Some v \<Rightarrow> Inr v)"

fun getitem :: "pyval \<Rightarrow> string \<Rightarrow> error + pyval" where
  "getitem (JDict d) k = dict_lookup d k"
| "getitem _ k = Inl TypeError"

fun getattr :: "pyval \<Rightarrow> string \<Rightarrow> error + pyval" where
  "getattr (Resource d) k =
     (case map_of d k of None \<Rightarrow> Inl (AttributeError k) | Some v \<Rightarrow> Inr v)"
| "getattr _ k = Inl (AttributeError k)"

fun to_dict :: "pyval \<Rightarrow> error + pydict" where
  "to_dict (Resource d) = Inr d"
| "to_dict _ = Inl (AttributeError ''to_dict'')"

fun iter_items :: "pyval \<Rightarrow> error + pyval list" where
  "iter_items (JList xs) = Inr xs"
| "iter_items (JStr s) = Inr (map (\<lambda>c. JStr [c]) s)"
| "iter_items (JDict d) = Inr (map JStr (remdups (map fst d)))"
| "iter_items _ = Inl TypeError"

text \<open>\<^verbatim>\<open>d.pop(k)\<close>: the value and the dictionary without the key.\<close>

definition dict_pop :: "string \<Rightarrow> pydict \<Rightarrow> error + (pyval \<times> pydict)" where
  "dict_pop k d =
     (case map_of d k of None \<Rightarrow> Inl (KeyError k) | Some v \<Rightarrow> Inr (v, AList.delete k d))"

text \<open>The receiver of \<^verbatim>\<open>data.pop(...)\<close> must be a dictionary.\<close>

fun pop_receiver :: "pyval \<Rightarrow> error + pydict" where
  "pop_receiver (JDict d) = Inr d"
| "pop_receiver (JList xs) = Inl TypeError"
| "pop_receiver _ = Inl (AttributeError ''pop'')"

fun join :: "string \<Rightarrow> string list \<Rightarrow> string" where
  "join sep [] = []"
| "join sep [x] = x"
| "join sep (x # y # ys) = x @ sep @ join sep (y # ys)"

section \<open>Reshaping a cluster record for display\<close>

definition CLUSTER_FIELDS :: "string list" where
  "CLUSTER_FIELDS =
     [''cluster_template_id'', ''use_autoconfig'', ''user_keypair_id'',
      ''status'', ''image'', ''node_groups'', ''id'',
      ''anti_affinity'', ''version'', ''name'', ''is_transient'',
      ''is_protected'', ''description'', ''is_public'',
      ''neutron_management_network'', ''plugin_name'']"

definition format_node_group :: "collaborators \<Rightarrow> pyval \<Rightarrow> error + string" where
  "format_node_group C ng =
     ebind (getitem ng ''name'') (\<lambda>n.
     ebind (getitem ng ''count'') (\<lambda>c.
     Inr (py_str C n @ '':'' @ py_str C c)))"

definition format_node_groups_list :: "collaborators \<Rightarrow> pyval \<Rightarrow> error + string" where
  "format_node_groups_list C node_groups =
     ebind (iter_items node_groups) (\<lambda>ngs.
     ebind (emap (format_node_group C) ngs) (\<lambda>ss.
     Inr (join '', '' ss)))"

definition format_cluster_output :: "collaborators \<Rightarrow> pyval \<Rightarrow> error + pydict" where
  "format_cluster_output C data =
     ebind (pop_receiver data) (\<lambda>d0.
     ebind (dict_pop ''hadoop_version'' d0) (\<lambda>(v, d1).
     ebind (dict_pop ''default_image_id'' (AList.update ''version'' v d1)) (\<lambda>(i, d2).
     ebind (dict_lookup (AList.update ''image'' i d2) ''node_groups'') (\<lambda>ngs.
     ebind (format_node_groups_list C ngs) (\<lambda>s.
     ebind (dict_lookup
              (AList.update ''node_groups'' (JStr s) (AList.update ''image'' i d2))
              ''anti_affinity'') (\<lambda>aa.
     ebind (format_list C aa) (\<lambda>f.
     Inr (AList.update ''anti_affinity'' f
           (AList.update ''node_groups'' (JStr s) (AList.update ''image'' i d2))))))))))"

text \<open>
  Modelled from the spec: \<^verbatim>\<open>utils.prepare_data\<close> (saharaclient/osc/v1/utils.py) is not
  among the sources. The spec says a command reads a fixed whitelist of the fields of the
  record: the entries of the record whose key is in the whitelist are kept, in the order
  of the whitelist.
\<close>

definition prepare_data :: "pydict \<Rightarrow> string list \<Rightarrow> pydict" where
  "prepare_data data whitelist =
     List.map_filter (\<lambda>f. map_option (Pair f) (map_of data f)) whitelist"

text \<open>
  The last two lines of every displaying command. \<^verbatim>\<open>self.dict2columns\<close> belongs to the
  host framework and only transposes the dictionary; the commands below return the
  dictionary it is given.
\<close>

definition display :: "collaborators \<Rightarrow> pyval \<Rightarrow> pydict act" where
  "display C data =
     andthen (lift (format_cluster_output C data)) (\<lambda>d.
     ret (prepare_data d CLUSTER_FIELDS))"

section \<open>ShowCluster, UpdateCluster, DeleteCluster\<close>

definition ShowCluster_take_action :: "collaborators \<Rightarrow> string \<Rightarrow> pydict act" where
  "ShowCluster_take_action C cluster =
     andthen (call C (GetResource Clusters (JStr cluster))) (\<lambda>r.
     andthen (lift (to_dict r)) (\<lambda>data.
     display C (JDict data)))"

record update_args =
  ua_cluster :: string
  ua_name :: "string option"
  ua_description :: "string option"
  ua_is_public :: "bool option"
  ua_is_protected :: "bool option"

definition UpdateCluster_take_action :: "collaborators \<Rightarrow> update_args \<Rightarrow> pydict act" where
  "UpdateCluster_take_action C a =
     andthen (call C (GetResourceId Clusters (JStr (ua_cluster a)))) (\<lambda>cluster_id.
     andthen (call C (ClustersUpdate cluster_id
                [(''name'', opt_str (ua_name a)),
                 (''description'', opt_str (ua_description a)),
                 (''is_public'', opt_bool (ua_is_public a)),
                 (''is_protected'', opt_bool (ua_is_protected a))])) (\<lambda>r.
     andthen (lift (getattr r ''cluster'')) (\<lambda>data.
     display C data)))"

text \<open>
  The parser of UpdateCluster: one positional argument, two options with a value, and
  two mutually exclusive pairs of switches writing \<open>is_public\<close> and \<open>is_protected\<close>, whose
  default is None. A switch after the other switch of its pair is a usage error.
\<close>

datatype update_token =
    Positional string
  | OptName string
  | OptDescription string
  | OptPublic
  | OptPrivate
  | OptProtected
  | OptUnprotected

record update_parse =
  up_cluster :: "string option"
  up_name :: "string option"
  up_description :: "string option"
  up_is_public :: "bool option"
  up_is_protected :: "bool option"

definition switch :: "string \<Rightarrow> bool \<Rightarrow> bool option \<Rightarrow> error + bool option" where
  "switch opt b cur =
     (if cur = Some (\<not> b) then Inl (UsageError (opt @ '': not allowed with argument''))
      else Inr (Some b))"

fun update_parse_tokens :: "update_token list \<Rightarrow> update_parse \<Rightarrow> error + update_parse" where
  "update_parse_tokens [] p = Inr p"
| "update_parse_tokens (Positional s # ts) p =
     (if up_cluster p = None then update_parse_tokens ts (p\<lparr>up_cluster := Some s\<rparr>)
      else Inl (UsageError ''unrecognized arguments''))"
| "update_parse_tokens (OptName s # ts) p = update_parse_tokens ts (p\<lparr>up_name := Some s\<rparr>)"
| "update_parse_tokens (OptDescription s # ts) p =
     update_parse_tokens ts (p\<lparr>up_description := Some s\<rparr>)"
| "update_parse_tokens (OptPublic # ts) p =
     ebind (switch ''--public'' True (up_is_public p)) (\<lambda>v.
       update_parse_tokens ts (p\<lparr>up_is_public := v\<rparr>))"
| "update_parse_tokens (OptPrivate # ts) p =
     ebind (switch ''--private'' False (up_is_public p)) (\<lambda>v.
       update_parse_tokens ts (p\<lparr>up_is_public := v\<rparr>))"
| "update_parse_tokens (OptProtected # ts) p =
     ebind (switch ''--protected'' True (up_is_protected p)) (\<lambda>v.
       update_parse_tokens ts (p\<lparr>up_is_protected := v\<rparr>))"
| "update_parse_tokens (OptUnprotected # ts) p =
     ebind (switch ''--unprotected'' False (up_is_protected p)) (\<lambda>v.
       update_parse_tokens ts (p\<lparr>up_is_protected := v\<rparr>))"

definition UpdateCluster_get_parser :: "update_token list \<Rightarrow> error + update_args" where
  "UpdateCluster_get_parser ts =
     ebind (update_parse_tokens ts
              \<lparr>up_cluster = None, up_name = None, up_description = None,
               up_is_public = None, up_is_protected = None\<rparr>) (\<lambda>p.
       case up_cluster p of
         None \<Rightarrow> Inl (UsageError ''too few arguments'')
       | Some c \<Rightarrow>
           Inr \<lparr>ua_cluster = c, ua_name = up_name p, ua_description = up_description p,
                ua_is_public = up_is_public p, ua_is_protected = up_is_protected p\<rparr>)"

record delete_args =
  da_cluster :: "string list"
  da_wait :: bool

fun delete_each :: "collaborators \<Rightarrow> string list \<Rightarrow> pyval list \<Rightarrow> pyval list act" where
  "delete_each C [] clusters = ret clusters"
| "delete_each C (cluster # rest) clusters =
     andthen (call C (GetResourceId Clusters (JStr cluster))) (\<lambda>cluster_id.
     andthen (call C (ClustersDelete cluster_id)) (\<lambda>_.
     delete_each C rest (clusters @ [cluster_id])))"

fun wait_each_delete :: "collaborators \<Rightarrow> pyval list \<Rightarrow> unit act" where
  "wait_each_delete C [] = ret ()"
| "wait_each_delete C (cluster_id # rest) =
     andthen (call C (WaitForDelete cluster_id)) (\<lambda>ok.
     andthen (if \<not> truthy ok
              then log_error ''Error occurred during cluster deleting: %s'' cluster_id
              else ret ()) (\<lambda>_.
     wait_each_delete C rest))"

definition DeleteCluster_take_action :: "collaborators \<Rightarrow> delete_args \<Rightarrow> unit act" where
  "DeleteCluster_take_action C a =
     andthen (delete_each C (da_cluster a) []) (\<lambda>clusters.
     if da_wait a then wait_each_delete C clusters else ret ())"

section \<open>CreateCluster\<close>

record create_args =
  ca_name :: "string option"
  ca_cluster_template :: "string option"
  ca_image :: "string option"
  ca_description :: "string option"
  ca_user_keypair :: "string option"
  ca_neutron_network :: "string option"
  ca_count :: "int option"
  ca_public :: bool
  ca_protected :: bool
  ca_transient :: bool
  ca_json :: "string option"
  ca_wait :: bool

text \<open>\<^verbatim>\<open>p in s\<close> on strings: \<open>p\<close> occurs in \<open>s\<close> as a contiguous piece.\<close>

definition contains :: "string \<Rightarrow> string \<Rightarrow> bool" where
  "contains p s = list_ex (\<lambda>i. take (length p) (drop i s) = p) [0..<Suc (length s)]"

text \<open>
  Lines 146 to 152 use the parsed document as a dictionary (\<^verbatim>\<open>in\<close>, \<^verbatim>\<open>pop\<close>, a subscript,
  \<^verbatim>\<open>**template\<close>). On a document that is not a dictionary one of them raises before the
  create call.
\<close>

fun template_dict :: "pyval \<Rightarrow> error + pydict" where
  "template_dict (JDict d) = Inr d"
| "template_dict (JStr s) =
     (if contains ''neutron_management_network'' s then Inl (AttributeError ''pop'')
      else Inl TypeError)"
| "template_dict _ = Inl TypeError"

definition rename_net_id :: "pydict \<Rightarrow> pydict" where
  "rename_net_id template =
     (case map_of template ''neutron_management_network'' of
        None \<Rightarrow> template
      | Some v \<Rightarrow> AList.update ''net_id'' v (AList.delete ''neutron_management_network'' template))"

text \<open>
  \<^verbatim>\<open>json.loads\<close> of the file that \<^verbatim>\<open>--json\<close> names; a ValueError becomes the
  CommandError of lines 142 and 475.
\<close>

definition load_template :: "collaborators \<Rightarrow> string \<Rightarrow> pyval act" where
  "load_template C path =
     andthen (call C (ReadBlobFileContents path)) (\<lambda>blob.
     case blob of
       JStr contents \<Rightarrow>
         (case json_loads C contents of
            Inl e \<Rightarrow> throw (CommandError
                       (''An error occurred when reading template from file '' @ path @ '': '' @ e))
          | Inr template \<Rightarrow> ret template)
     | _ \<Rightarrow> throw TypeError)"

text \<open>The two ways to a create call; each returns the response's dictionary and the count.\<close>

definition create_from_json :: "collaborators \<Rightarrow> string \<Rightarrow> pyval \<Rightarrow> (pydict \<times> pyval) act" where
  "create_from_json C path count0 =
     andthen (load_template C path) (\<lambda>doc.
     andthen (lift (template_dict doc)) (\<lambda>template0.
     let template = rename_net_id template0;
         count = (case map_of template ''count'' of None \<Rightarrow> count0 | Some c \<Rightarrow> c)
     in andthen (call C (ClustersCreate template)) (\<lambda>r.
        andthen (lift (to_dict r)) (\<lambda>data.
        ret (data, count)))))"

definition create_from_flags :: "collaborators \<Rightarrow> create_args \<Rightarrow> (pydict \<times> pyval) act" where
  "create_from_flags C a =
     (case (given (ca_name a), given (ca_cluster_template a), given (ca_image a)) of
        (Some name, Some cluster_template, Some img) \<Rightarrow>
          andthen (call C (GetResource ClusterTemplates (JStr cluster_template))) (\<lambda>ct.
          andthen (lift (getattr ct ''plugin_name'')) (\<lambda>plugin.
          andthen (lift (getattr ct ''hadoop_version'')) (\<lambda>version.
          andthen (lift (getattr ct ''id'')) (\<lambda>template_id.
          andthen (call C (GetResourceId Images (JStr img))) (\<lambda>image_id.
          andthen (case given (ca_neutron_network a) of
                     None \<Rightarrow> ret JNone
                   | Some network \<Rightarrow>
                       andthen (call C (FindAttr ''networks'' network)) (\<lambda>n.
                       lift (getitem n ''id''))) (\<lambda>net_id.
          andthen (call C (ClustersCreate
                     [(''name'', JStr name),
                      (''plugin_name'', plugin),
                      (''hadoop_version'', version),
                      (''cluster_template_id'', template_id),
                      (''default_image_id'', image_id),
                      (''description'', opt_str (ca_description a)),
                      (''is_transient'', JBool (ca_transient a)),
                      (''user_keypair_id'', opt_str (ca_user_keypair a)),
                      (''net_id'', net_id),
                      (''count'', opt_int (ca_count a)),
                      (''is_public'', JBool (ca_public a)),
                      (''is_protected'', JBool (ca_protected a))])) (\<lambda>r.
          andthen (lift (to_dict r)) (\<lambda>data.
          ret (data, opt_int (ca_count a))))))))))
      | _ \<Rightarrow>
          throw (CommandError
            (''At least --name , --cluster-template, --image arguments '' @
             ''should be specified or json template should be provided '' @
             ''with --json argument'')))"

text \<open>
  Line 184, \<^verbatim>\<open>parsed_args.count and parsed_args.count > 1\<close>. The count is an integer from
  the command line or any value of the document; ordering a non-number against 1 raises
  (Python 3).
\<close>

fun count_gt_1 :: "pyval \<Rightarrow> error + bool" where
  "count_gt_1 (JInt n) = Inr (n > 1)"
| "count_gt_1 (JBool b) = Inr False"
| "count_gt_1 v = (if truthy v then Inl TypeError else Inr False)"

fun get_clusters :: "collaborators \<Rightarrow> pyval list \<Rightarrow> pyval list act" where
  "get_clusters C [] = ret []"
| "get_clusters C (i # ids) =
     andthen (call C (GetResource Clusters i)) (\<lambda>c.
     andthen (get_clusters C ids) (\<lambda>cs.
     ret (c # cs)))"

fun wait_each_create :: "collaborators \<Rightarrow> pydict \<Rightarrow> pyval list \<Rightarrow> unit act" where
  "wait_each_create C data [] = ret ()"
| "wait_each_create C data (cluster # rest) =
     andthen (lift (getattr cluster ''id'')) (\<lambda>cid.
     andthen (call C (WaitForStatus cid)) (\<lambda>ok.
     andthen (if \<not> truthy ok
              then andthen (lift (dict_lookup data ''id'')) (\<lambda>i.
                   log_error ''Error occurred during cluster creation: %s'' i)
              else ret ()) (\<lambda>_.
     wait_each_create C data rest)))"

fun names_to_ids :: "pydict \<Rightarrow> pyval list \<Rightarrow> error + pydict" where
  "names_to_ids data [] = Inr data"
| "names_to_ids data (cluster # rest) =
     ebind (getattr cluster ''name'') (\<lambda>n.
     ebind (getattr cluster ''id'') (\<lambda>i.
     case n of
       JStr name \<Rightarrow> names_to_ids (AList.update name i data) rest
     | _ \<Rightarrow> Inl (Unsupported ''dictionary key'')))"

definition create_many :: "collaborators \<Rightarrow> bool \<Rightarrow> pydict \<Rightarrow> pydict act" where
  "create_many C wait data =
     andthen (lift (dict_lookup data ''clusters'')) (\<lambda>l.
     andthen (lift (iter_items l)) (\<lambda>ids.
     andthen (get_clusters C ids) (\<lambda>clusters.
     andthen (if wait then wait_each_create C data clusters else ret ()) (\<lambda>_.
     lift (names_to_ids [] clusters)))))"

definition create_one :: "collaborators \<Rightarrow> bool \<Rightarrow> pydict \<Rightarrow> pydict act" where
  "create_one C wait data =
     andthen (if wait
              then andthen (lift (dict_lookup data ''id'')) (\<lambda>cid.
                   andthen (call C (WaitForStatus cid)) (\<lambda>ok.
                   andthen (if \<not> truthy ok
                            then log_error ''Error occurred during cluster creation: %s'' cid
                            else ret ()) (\<lambda>_.
                   andthen (call C (ClustersGet cid)) (\<lambda>r.
                   lift (to_dict r)))))
              else ret data) (\<lambda>data'.
     display C (JDict data'))"

definition CreateCluster_take_action :: "collaborators \<Rightarrow> create_args \<Rightarrow> pydict act" where
  "CreateCluster_take_action C a =
     andthen (case given (ca_json a) of
                Some path \<Rightarrow> create_from_json C path (opt_int (ca_count a))
              | None \<Rightarrow> create_from_flags C a) (\<lambda>(data, count).
     andthen (lift (count_gt_1 count)) (\<lambda>many.
     if many then create_many C (ca_wait a) data else create_one C (ca_wait a) data))"

section \<open>ScaleCluster\<close>

record scale_args =
  sa_cluster :: string
  sa_node_groups :: "string list option"
  sa_json :: "string option"
  sa_wait :: bool

text \<open>\<^verbatim>\<open>x.split(':', 1)\<close>: cut at the first colon, when there is one.\<close>

definition split_colon :: "string \<Rightarrow> string list" where
  "split_colon x =
     (if CHR '':'' \<in> set x
      then [takeWhile (\<lambda>c. c \<noteq> CHR '':'') x, tl (dropWhile (\<lambda>c. c \<noteq> CHR '':'') x)]
      else [x])"

text \<open>
  \<^verbatim>\<open>dict(map(lambda x: x.split(':', 1), node_groups))\<close>: the pairs enter the dictionary from
  left to right, a later pair replacing the value of an earlier one with the same name; an
  element without a colon is a ValueError.
\<close>

fun dict_of_splits :: "(string \<times> string) list \<Rightarrow> string list \<Rightarrow> error + (string \<times> string) list" where
  "dict_of_splits d [] = Inr d"
| "dict_of_splits d (x # xs) =
     (case split_colon x of
        [k, v] \<Rightarrow> dict_of_splits (AList.update k v d) xs
      | _ \<Rightarrow> Inl ValueError)"

definition int_of :: "collaborators \<Rightarrow> string \<Rightarrow> error + pyval" where
  "int_of C s = (case py_int C s of None \<Rightarrow> Inl ValueError | Some n \<Rightarrow> Inr (JInt n))"

text \<open>
  The loop of lines 488 to 500 over the items of the dictionary; the accumulator is the
  pair of lists \<^verbatim>\<open>add_node_groups\<close>, \<^verbatim>\<open>resize_node_groups\<close>.
\<close>

fun scale_each ::
  "collaborators \<Rightarrow> pyval list \<Rightarrow> (string \<times> string) list \<Rightarrow> pyval list \<times> pyval list
     \<Rightarrow> (pyval list \<times> pyval list) act" where
  "scale_each C cluster_node_groups [] acc = ret acc"
| "scale_each C cluster_node_groups ((name, count) # rest) acc =
     andthen (call C (GetResource NodeGroupTemplates (JStr name))) (\<lambda>ng.
     andthen (lift (getattr ng ''name'')) (\<lambda>ng_name.
     if ng_name \<in> set cluster_node_groups
     then andthen (lift (int_of C count)) (\<lambda>n.
          scale_each C cluster_node_groups rest
            (fst acc, snd acc @ [JDict [(''name'', ng_name), (''count'', n)]]))
     else andthen (lift (getattr ng ''id'')) (\<lambda>ng_id.
          andthen (lift (int_of C count)) (\<lambda>n.
          scale_each C cluster_node_groups rest
            (fst acc @ [JDict [(''node_group_template_id'', ng_id), (''name'', ng_name),
                               (''count'', n)]],
             snd acc)))))"

text \<open>Lines 501 to 504: a list that stayed empty is deleted from the request.\<close>

definition scale_object :: "pyval list \<times> pyval list \<Rightarrow> pydict" where
  "scale_object acc =
     (if fst acc = [] then [] else [(''add_node_groups'', JList (fst acc))]) @
     (if snd acc = [] then [] else [(''resize_node_groups'', JList (snd acc))])"

definition scale_from_json :: "collaborators \<Rightarrow> pyval \<Rightarrow> string \<Rightarrow> pyval act" where
  "scale_from_json C cluster path =
     andthen (load_template C path) (\<lambda>template.
     andthen (lift (getattr cluster ''id'')) (\<lambda>cid.
     andthen (call C (ClustersScale cid template)) (\<lambda>r.
     andthen (lift (to_dict r)) (\<lambda>data.
     ret (JDict data)))))"

definition scale_from_flags :: "collaborators \<Rightarrow> pyval \<Rightarrow> string list option \<Rightarrow> pyval act" where
  "scale_from_flags C cluster node_groups =
     (case node_groups of
        None \<Rightarrow> throw TypeError
      | Some xs \<Rightarrow>
          andthen (lift (dict_of_splits [] xs)) (\<lambda>scale_node_groups.
          andthen (lift (getattr cluster ''node_groups'')) (\<lambda>ngs.
          andthen (lift (iter_items ngs)) (\<lambda>ngl.
          andthen (lift (emap (\<lambda>ng. getitem ng ''name'') ngl)) (\<lambda>cluster_node_groups.
          andthen (scale_each C cluster_node_groups scale_node_groups ([], [])) (\<lambda>acc.
          andthen (lift (getattr cluster ''id'')) (\<lambda>cid.
          andthen (call C (ClustersScale cid (JDict (scale_object acc)))) (\<lambda>r.
          lift (getattr r ''cluster'')))))))))"

definition scale_wait :: "collaborators \<Rightarrow> pyval \<Rightarrow> pyval \<Rightarrow> pyval act" where
  "scale_wait C cluster data =
     andthen (lift (getitem data ''id'')) (\<lambda>i.
     andthen (call C (WaitForStatus i)) (\<lambda>ok.
     andthen (if \<not> truthy ok
              then andthen (lift (getattr cluster ''id'')) (\<lambda>cid.
                   log_error ''Error occurred during cluster scaling: %s'' cid)
              else ret ()) (\<lambda>_.
     andthen (lift (getattr cluster ''id'')) (\<lambda>cid.
     andthen (call C (ClustersGet cid)) (\<lambda>r.
     andthen (lift (to_dict r)) (\<lambda>d.
     ret (JDict d)))))))"

definition ScaleCluster_take_action :: "collaborators \<Rightarrow> scale_args \<Rightarrow> pydict act" where
  "ScaleCluster_take_action C a =
     andthen (call C (GetResource Clusters (JStr (sa_cluster a)))) (\<lambda>cluster.
     andthen (case given (sa_json a) of
                Some path \<Rightarrow> scale_from_json C cluster path
              | None \<Rightarrow> scale_from_flags C cluster (sa_node_groups a)) (\<lambda>data.
     andthen (if sa_wait a then scale_wait C cluster data else ret data) (\<lambda>data'.
     display C data')))"

section \<open>ListClusters\<close>

record list_args =
  la_long :: bool
  la_plugin :: "string option"
  la_version :: "string option"
  la_name :: "string option"

text \<open>
  The rows are a generator in the source, run by the host framework after the command
  returned; here they are computed before returning.
\<close>

definition ListClusters_take_action ::
  "collaborators \<Rightarrow> list_args \<Rightarrow> (string list \<times> pyval list list) act" where
  "ListClusters_take_action C a =
     (let search_opts =
            (case given (la_plugin a) of None \<Rightarrow> [] | Some p \<Rightarrow> [(''plugin_name'', JStr p)]) @
            (case given (la_version a) of None \<Rightarrow> [] | Some v \<Rightarrow> [(''hadoop_version'', JStr v)]);
          columns =
            (if la_long a
             then [''name'', ''id'', ''plugin_name'', ''hadoop_version'',
                   ''status'', ''description'', ''default_image_id'']
             else [''name'', ''id'', ''plugin_name'', ''hadoop_version'', ''status'']);
          column_headers =
            prepare_column_headers C columns
              [(''hadoop_version'', JStr ''version''), (''default_image_id'', JStr ''image'')]
      in andthen (call C (ClustersList search_opts)) (\<lambda>data.
         andthen (case given (la_name a) of
                    None \<Rightarrow> ret data
                  | Some n \<Rightarrow> lift (get_by_name_substring C data n)) (\<lambda>data'.
         andthen (lift (iter_items data')) (\<lambda>items.
         andthen (lift (emap (\<lambda>s. get_item_properties C s columns) items)) (\<lambda>rows.
         ret (column_headers, rows))))))"

section \<open>Counting the acting calls of a run\<close>

text \<open>
  The calls that perform a command's action, as opposed to lookups, file reads, waits and
  re-fetches.
\<close>

fun acting :: "request \<Rightarrow> bool" where
  "acting (ClustersCreate kw) = True"
| "acting (ClustersList opts) = True"
| "acting (ClustersDelete i) = True"
| "acting (ClustersUpdate i kw) = True"
| "acting (ClustersScale i body) = True"
| "acting _ = False"

fun acts :: "event \<Rightarrow> bool" where
  "acts (Called r resp) = acting r"
| "acts (LogError m a) = False"

text \<open>
  \<open>exact n m\<close>: from any starting point the action \<open>m\<close> only appends events, among them at
  most \<open>n\<close> acting calls, and exactly \<open>n\<close> when it returns normally.
\<close>

definition exact :: "nat \<Rightarrow> 'a act \<Rightarrow> bool" where
  "exact n m =
     (\<forall>t. \<exists>ext. snd (m t) = t @ ext \<and> length (filter acts ext) \<le> n \<and>
        (\<forall>x. fst (m t) = Inr x \<longrightarrow> length (filter acts ext) = n))"

section \<open>An example service\<close>

text \<open>
  A small service to run the commands against. Its answers depend on the request only.
  Waiting fails for the cluster ids listed in \<open>slow\<close>.
\<close>

definition quoted :: "string \<Rightarrow> string" where
  "quoted s = CHR 0x22 # s @ [CHR 0x22]"

definition demo_template_text :: string where
  "demo_template_text =
     ''{'' @ quoted ''name'' @ '': '' @ quoted ''alpha'' @ '', '' @
     quoted ''plugin_name'' @ '': '' @ quoted ''vanilla'' @ '', '' @
     quoted ''hadoop_version'' @ '': '' @ quoted ''2.7.1'' @ '', '' @
     quoted ''neutron_management_network'' @ '': '' @ quoted ''net-1'' @ ''}''"

definition demo_template :: pydict where
  "demo_template =
     [(''name'', JStr ''alpha''), (''plugin_name'', JStr ''vanilla''),
      (''hadoop_version'', JStr ''2.7.1''), (''neutron_management_network'', JStr ''net-1'')]"

definition demo_json_loads :: "string \<Rightarrow> string + pyval" where
  "demo_json_loads s =
     (if s = demo_template_text then Inr (JDict demo_template)
      else Inl ''No JSON object could be decoded'')"

definition demo_str :: "pyval \<Rightarrow> string" where
  "demo_str v =
     (case v of
        JStr s \<Rightarrow> s
      | JInt n \<Rightarrow> (if 0 \<le> n \<and> n < 10 then [''0123456789'' ! nat n] else ''?'')
      | _ \<Rightarrow> ''?'')"

definition demo_int :: "string \<Rightarrow> int option" where
  "demo_int s =
     map_of [(''0'', 0), (''1'', 1), (''2'', 2), (''3'', 3), (''4'', 4),
             (''5'', 5), (''6'', 6), (''7'', 7), (''8'', 8), (''9'', 9)] s"

definition demo_format_list :: "pyval \<Rightarrow> error + pyval" where
  "demo_format_list v =
     (case v of
        JList xs \<Rightarrow> Inr (JStr (join '', '' (map demo_str xs)))
      | JNone \<Rightarrow> Inr JNone
      | _ \<Rightarrow> Inl TypeError)"

definition demo_cluster :: "string \<Rightarrow> string \<Rightarrow> pydict" where
  "demo_cluster i n =
     [(''id'', JStr i), (''name'', JStr n), (''plugin_name'', JStr ''vanilla''),
      (''hadoop_version'', JStr ''2.7.1''), (''default_image_id'', JStr ''img-1''),
      (''cluster_template_id'', JStr ''ct-1''), (''use_autoconfig'', JBool True),
      (''user_keypair_id'', JNone), (''status'', JStr ''Active''),
      (''node_groups'',
         JList [JDict [(''name'', JStr ''master''), (''count'', JInt 1)],
                JDict [(''name'', JStr ''worker''), (''count'', JInt 3)]]),
      (''anti_affinity'', JList []), (''is_transient'', JBool False),
      (''is_protected'', JBool False), (''description'', JNone),
      (''is_public'', JBool False), (''neutron_management_network'', JNone),
      (''created_at'', JStr ''2015-09-01'')]"

definition demo_old_cluster :: pydict where
  "demo_old_cluster =
     [(''id'', JStr ''c0''), (''name'', JStr ''legacy''),
      (''hadoop_version'', JStr ''1.2.1''), (''default_image_id'', JStr ''img-0''),
      (''node_groups'', JList []), (''anti_affinity'', JList [])]"

definition demo_respond :: "pyval list \<Rightarrow> request \<Rightarrow> error + pyval" where
  "demo_respond slow r =
     (case r of
        ReadBlobFileContents p \<Rightarrow>
          (if p = ''cluster.json'' then Inr (JStr demo_template_text)
           else if p = ''bad.json'' then Inr (JStr ''{'')
           else Inl (Raised (JStr ''No such file'')))
      | GetResource m x \<Rightarrow>
          (case m of
             Clusters \<Rightarrow>
               (if x = JStr ''ghost'' then Inl (Raised (JStr ''NotFound''))
                else if x = JStr ''old'' then Inr (Resource demo_old_cluster)
                else if x = JStr ''c2'' then Inr (Resource (demo_cluster ''c2'' ''beta''))
                else if x = JStr ''c3'' then Inr (Resource (demo_cluster ''c3'' ''alpha''))
                else Inr (Resource (demo_cluster ''c1'' ''alpha'')))
           | ClusterTemplates \<Rightarrow>
               Inr (Resource [(''id'', JStr ''ct-1''), (''plugin_name'', JStr ''vanilla''),
                              (''hadoop_version'', JStr ''2.7.1'')])
           | NodeGroupTemplates \<Rightarrow>
               (case x of
                  JStr n \<Rightarrow> Inr (Resource [(''id'', JStr (''ngt-'' @ n)), (''name'', JStr n)])
                | _ \<Rightarrow> Inl (Raised (JStr ''NotFound'')))
           | Images \<Rightarrow> Inl (Raised (JStr ''NotFound'')))
      | GetResourceId m x \<Rightarrow>
          (case m of
             Images \<Rightarrow> Inr (JStr ''img-1'')
           | _ \<Rightarrow> (case x of JStr n \<Rightarrow> Inr (JStr (''id-'' @ n))
                   | _ \<Rightarrow> Inl (Raised (JStr ''NotFound''))))
      | FindAttr p n \<Rightarrow> Inr (JDict [(''id'', JStr ''net-1'')])
      | ClustersCreate kw \<Rightarrow>
          (if map_of kw ''count'' = Some (JInt 2)
           then Inr (Resource [(''clusters'', JList [JStr ''c1'', JStr ''c2''])])
           else if map_of kw ''count'' = Some (JInt 3)
           then Inr (Resource [(''clusters'', JList [JStr ''c1'', JStr ''c2'', JStr ''c3''])])
           else Inr (Resource (demo_cluster ''c1'' ''alpha'')))
      | ClustersList opts \<Rightarrow>
          Inr (JList [Resource (demo_cluster ''c1'' ''alpha''),
                      Resource (demo_cluster ''c2'' ''beta'')])
      | ClustersGet i \<Rightarrow> Inr (Resource (demo_cluster ''c1'' ''alpha''))
      | ClustersDelete i \<Rightarrow> Inr JNone
      | ClustersUpdate i kw \<Rightarrow>
          Inr (Resource [(''cluster'', JDict (demo_cluster ''c1'' ''alpha''))])
      | ClustersScale i body \<Rightarrow>
          Inr (Resource ((''cluster'', JDict (demo_cluster ''c1'' ''alpha''))
                         # demo_cluster ''c1'' ''alpha''))
      | WaitForStatus i \<Rightarrow> Inr (JBool (i \<notin> set slow))
      | WaitForDelete i \<Rightarrow> Inr (JBool (i \<notin> set slow)))"

definition demo :: "pyval list \<Rightarrow> collaborators" where
  "demo slow =
     \<lparr>respond = (\<lambda>t r. demo_respond slow r),
      json_loads = demo_json_loads,
      format_list = demo_format_list,
      py_str = demo_str,
      py_int = demo_int,
      get_by_name_substring = (\<lambda>d n. Inr d),
      prepare_column_headers = (\<lambda>columns renames. columns),
      get_item_properties = (\<lambda>s columns. emap (getattr s) columns)\<rparr>"

definition demo_create_args :: create_args where
  "demo_create_args =
     \<lparr>ca_name = Some ''alpha'', ca_cluster_template = Some ''tmpl'', ca_image = Some ''img'',
      ca_description = None, ca_user_keypair = None, ca_neutron_network = None,
      ca_count = None, ca_public = False, ca_protected = False, ca_transient = False,
      ca_json = None, ca_wait = False\<rparr>"

section \<open>Reading a run\<close>

text \<open>The lines a run wrote with \<^verbatim>\<open>self.log.error\<close>: the format string and its argument.\<close>

fun log_line :: "event \<Rightarrow> (string \<times> pyval) option" where
  "log_line (LogError m a) = Some (m, a)"
| "log_line (Called r resp) = None"

definition logged :: "event list \<Rightarrow> (string \<times> pyval) list" where
  "logged es = List.map_filter log_line es"

section \<open>The effective count of a creation\<close>

text \<open>
  The count that decides between a batch and a single creation: the value of the \<^verbatim>\<open>count\<close>
  key of the JSON document when \<^verbatim>\<open>--json\<close> is given, the file is read and the document
  has the key; the value of \<^verbatim>\<open>--count\<close> otherwise.
\<close>

definition effective_count :: "collaborators \<Rightarrow> create_args \<Rightarrow> event list \<Rightarrow> pyval" where
  "effective_count C a t =
     (case given (ca_json a) of
        None \<Rightarrow> opt_int (ca_count a)
      | Some path \<Rightarrow>
          (case respond C t (ReadBlobFileContents path) of
             Inr (JStr blob) \<Rightarrow>
               (case json_loads C blob of
                  Inr (JDict d) \<Rightarrow>
                    (case map_of d ''count'' of Some c \<Rightarrow> c | None \<Rightarrow> opt_int (ca_count a))
                | _ \<Rightarrow> opt_int (ca_count a))
           | _ \<Rightarrow> opt_int (ca_count a)))"

section \<open>The scale request, as the node-group arguments describe it\<close>

text \<open>
  The name and the count of a \<^verbatim>\<open>name:count\<close> argument; whether a resolved node group
  template bears the name of a node group of the cluster; and the entries such a template
  gets in \<^verbatim>\<open>resize_node_groups\<close> and in \<^verbatim>\<open>add_node_groups\<close>. An element of the lists below
  is an item of the dictionary (name, count text) paired with the template it resolved to.
\<close>

definition split_pair :: "string \<Rightarrow> string \<times> string" where
  "split_pair x = (takeWhile (\<lambda>c. c \<noteq> CHR '':'') x, tl (dropWhile (\<lambda>c. c \<noteq> CHR '':'') x))"

definition in_cluster :: "pyval list \<Rightarrow> (string \<times> string) \<times> pyval \<Rightarrow> bool" where
  "in_cluster cluster_node_groups x =
     (case getattr (snd x) ''name'' of
        Inr v \<Rightarrow> v \<in> set cluster_node_groups
      | Inl e \<Rightarrow> False)"

definition resize_entry :: "collaborators \<Rightarrow> (string \<times> string) \<times> pyval \<Rightarrow> pyval \<Rightarrow> bool" where
  "resize_entry C x e =
     (case (getattr (snd x) ''name'', py_int C (snd (fst x))) of
        (Inr v, Some n) \<Rightarrow> e = JDict [(''name'', v), (''count'', JInt n)]
      | _ \<Rightarrow> False)"

definition add_entry :: "collaborators \<Rightarrow> (string \<times> string) \<times> pyval \<Rightarrow> pyval \<Rightarrow> bool" where
  "add_entry C x e =
     (case (getattr (snd x) ''id'', getattr (snd x) ''name'', py_int C (snd (fst x))) of
        (Inr i, Inr v, Some n) \<Rightarrow>
          e = JDict [(''node_group_template_id'', i), (''name'', v), (''count'', JInt n)]
      | _ \<Rightarrow> False)"

definition demo_scale_args :: scale_args where
  "demo_scale_args =
     \<lparr>sa_cluster = ''c1'', sa_node_groups = Some [''worker:5'', ''extra:2'', ''worker:7''],
      sa_json = None, sa_wait = False\<rparr>"

section \<open>Properties\<close>

subsection \<open>Acting calls compose\<close>

lemmas act_defs = andthen_def ret_def throw_def lift_def call_def log_error_def

lemma exact_ret: "exact 0 (ret x)" by (simp add: exact_def ret_def)
lemma exact_throw: "exact n (throw e)" by (simp add: exact_def throw_def)
lemma exact_lift: "exact 0 (lift r)" by (simp add: exact_def lift_def)
lemma exact_log: "exact 0 (log_error m a)" by (simp add: exact_def log_error_def)
lemma exact_call0: "\<not> acting r \<Longrightarrow> exact 0 (call C r)" by (simp add: exact_def call_def)
lemma exact_call1: "acting r \<Longrightarrow> exact (Suc 0) (call C r)" by (simp add: exact_def call_def)

lemma exact_andthen:
  assumes m: "exact a m" and f: "\<And>x. exact b (f x)"
  shows "exact (a + b) (andthen m f)"
  unfolding exact_def
proof
  fix t
  from m obtain e1 where e1: "snd (m t) = t @ e1" "length (filter acts e1) \<le> a"
    "\<forall>x. fst (m t) = Inr x \<longrightarrow> length (filter acts e1) = a"
    unfolding exact_def by blast
  show "\<exists>ext. snd (andthen m f t) = t @ ext \<and> length (filter acts ext) \<le> a + b \<and>
        (\<forall>x. fst (andthen m f t) = Inr x \<longrightarrow> length (filter acts ext) = a + b)"
  proof (cases "fst (m t)")
    case (Inl e)
    then have "andthen m f t = (Inl e, t @ e1)"
      using e1(1) by (cases "m t") (simp add: andthen_def)
    then show ?thesis using e1(2) by auto
  next
    case (Inr x)
    then have eq: "andthen m f t = f x (t @ e1)"
      using e1(1) by (cases "m t") (simp add: andthen_def)
    from f[of x] obtain e2 where e2: "snd (f x (t @ e1)) = (t @ e1) @ e2"
      "length (filter acts e2) \<le> b"
      "\<forall>y. fst (f x (t @ e1)) = Inr y \<longrightarrow> length (filter acts e2) = b"
      unfolding exact_def by blast
    have "length (filter acts e1) = a" using e1(3) Inr by simp
    then show ?thesis using eq e2 by (intro exI[of _ "e1 @ e2"]) auto
  qed
qed

lemma exact_andthen0: "exact 0 m \<Longrightarrow> (\<And>x. exact n (f x)) \<Longrightarrow> exact n (andthen m f)"
  using exact_andthen[of 0 m n f] by simp

lemma exact_andthen_quiet: "exact n m \<Longrightarrow> (\<And>x. exact 0 (f x)) \<Longrightarrow> exact n (andthen m f)"
  using exact_andthen[of n m 0 f] by simp

lemmas quiet_intros = exact_andthen0 exact_ret exact_throw exact_lift exact_log exact_call0

lemma exact_display: "exact 0 (display C d)"
  unfolding display_def by (intro quiet_intros)

lemma exact_get_clusters: "exact 0 (get_clusters C ids)"
  by (induction ids) (auto intro!: quiet_intros)

lemma exact_wait_each_create: "exact 0 (wait_each_create C d cs)"
  by (induction cs) (auto intro!: quiet_intros)

lemma exact_wait_each_delete: "exact 0 (wait_each_delete C cs)"
  by (induction cs) (auto intro!: quiet_intros)

lemma exact_create_many: "exact 0 (create_many C w d)"
  unfolding create_many_def
  by (auto intro!: quiet_intros exact_get_clusters exact_wait_each_create)

lemma exact_create_one: "exact 0 (create_one C w d)"
  unfolding create_one_def
  by (auto intro!: quiet_intros exact_display)

lemma exact_load_template: "exact 0 (load_template C p)"
  unfolding load_template_def
  by (auto intro!: quiet_intros split: pyval.splits sum.splits)

lemma exact_create_from_json: "exact (Suc 0) (create_from_json C p c)"
  unfolding create_from_json_def Let_def
  by (intro exact_andthen0 exact_load_template exact_lift exact_andthen_quiet exact_call1 exact_ret) simp

lemma exact_net: "exact 0 (case given nn of None \<Rightarrow> ret JNone
     | Some network \<Rightarrow> andthen (call C (FindAttr ''networks'' network)) (\<lambda>n. lift (getitem n ''id'')))"
  by (auto split: option.splits intro!: quiet_intros)

lemma exact_create_from_flags: "exact (Suc 0) (create_from_flags C a)"
  unfolding create_from_flags_def
  apply (cases "given (ca_name a)"; cases "given (ca_cluster_template a)";
         cases "given (ca_image a)"; simp add: exact_throw)
  apply (rule exact_andthen0, rule exact_call0, simp)
  apply (rule exact_andthen0, rule exact_lift)
  apply (rule exact_andthen0, rule exact_lift)
  apply (rule exact_andthen0, rule exact_lift)
  apply (rule exact_andthen0, rule exact_call0, simp)
  apply (rule exact_andthen0, rule exact_net)
  apply (rule exact_andthen_quiet, rule exact_call1, simp)
  apply (intro quiet_intros)
  done

lemma exact_CreateCluster: "exact (Suc 0) (CreateCluster_take_action C a)"
  unfolding CreateCluster_take_action_def
  apply (rule exact_andthen_quiet)
   apply (simp split: option.splits add: exact_create_from_json exact_create_from_flags)
  apply (auto intro!: quiet_intros exact_create_many exact_create_one)
  done

lemma exact_Show: "exact 0 (ShowCluster_take_action C c)"
  unfolding ShowCluster_take_action_def
  by (auto intro!: quiet_intros exact_display)

lemma exact_Update: "exact (Suc 0) (UpdateCluster_take_action C a)"
  unfolding UpdateCluster_take_action_def
  apply (rule exact_andthen0, rule exact_call0, simp)
  apply (rule exact_andthen_quiet, rule exact_call1, simp)
  apply (intro quiet_intros exact_display)
  done

lemma exact_delete_each: "exact (length cs) (delete_each C cs acc)"
proof (induction cs arbitrary: acc)
  case Nil
  show ?case by (simp add: exact_ret)
next
  case (Cons c cs)
  have "exact (Suc 0 + length cs) (delete_each C (c # cs) acc)"
    unfolding delete_each.simps
    apply (rule exact_andthen0, rule exact_call0, simp)
    apply (rule exact_andthen, rule exact_call1, simp)
    apply (rule Cons.IH)
    done
  then show ?case by simp
qed

lemma exact_Delete: "exact (length (da_cluster a)) (DeleteCluster_take_action C a)"
  unfolding DeleteCluster_take_action_def
  apply (rule exact_andthen_quiet, rule exact_delete_each)
  apply (auto intro!: quiet_intros exact_wait_each_delete)
  done

lemma exact_scale_each: "exact 0 (scale_each C cngs items acc)"
  by (induction items arbitrary: acc) (auto intro!: quiet_intros)

lemma exact_scale_from_json: "exact (Suc 0) (scale_from_json C cl p)"
  unfolding scale_from_json_def
  apply (rule exact_andthen0, rule exact_load_template)
  apply (rule exact_andthen0, rule exact_lift)
  apply (rule exact_andthen_quiet, rule exact_call1, simp)
  apply (intro quiet_intros)
  done

lemma exact_scale_from_flags: "exact (Suc 0) (scale_from_flags C cl ngs)"
  unfolding scale_from_flags_def
  apply (cases ngs; simp add: exact_throw)
  apply (rule exact_andthen0, rule exact_lift)
  apply (rule exact_andthen0, rule exact_lift)
  apply (rule exact_andthen0, rule exact_lift)
  apply (rule exact_andthen0, rule exact_lift)
  apply (rule exact_andthen0, rule exact_scale_each)
  apply (rule exact_andthen0, rule exact_lift)
  apply (rule exact_andthen_quiet, rule exact_call1, simp)
  apply (intro quiet_intros)
  done

lemma exact_scale_wait: "exact 0 (scale_wait C cl d)"
  unfolding scale_wait_def
  by (auto intro!: quiet_intros)

lemma exact_Scale: "exact (Suc 0) (ScaleCluster_take_action C a)"
  unfolding ScaleCluster_take_action_def
  apply (rule exact_andthen0, rule exact_call0, simp)
  apply (rule exact_andthen_quiet)
   apply (simp split: option.splits add: exact_scale_from_json exact_scale_from_flags)
  apply (auto intro!: quiet_intros exact_scale_wait exact_display)
  done

lemma exact_List: "exact (Suc 0) (ListClusters_take_action C a)"
  unfolding ListClusters_take_action_def Let_def
  apply (rule exact_andthen_quiet, rule exact_call1, simp)
  apply (auto intro!: quiet_intros split: option.splits)
  done

lemmas run_defs = act_defs ebind_def dict_lookup_def dict_pop_def

lemmas demo_defs = demo_def demo_respond_def demo_json_loads_def demo_str_def demo_int_def
  demo_format_list_def demo_cluster_def demo_old_cluster_def demo_template_def
  demo_template_text_def quoted_def

subsection \<open>Argument validation\<close>

text \<open>
  Claim C1, as amended. (1) CreateCluster without \<^verbatim>\<open>--json\<close> and with one of \<^verbatim>\<open>--name\<close>,
  \<^verbatim>\<open>--cluster-template\<close>, \<^verbatim>\<open>--image\<close> absent raises a CommandError and calls no
  collaborator. (2) CreateCluster with \<^verbatim>\<open>--json\<close>, when the file is read and its contents
  are not valid JSON, raises a CommandError whose message contains the file name; the only
  call made is the file read. (3) ScaleCluster with \<^verbatim>\<open>--json\<close> does the same provided the
  lookup of the cluster, which comes first, returns; the only calls made are that lookup
  and the file read.
\<close>

theorem C1_validation_errors:
  "(given (ca_json a) = None \<and>
    (given (ca_name a) = None \<or> given (ca_cluster_template a) = None \<or>
     given (ca_image a) = None) \<longrightarrow>
      CreateCluster_take_action C a t =
        (Inl (CommandError
           (''At least --name , --cluster-template, --image arguments '' @
            ''should be specified or json template should be provided '' @
            ''with --json argument'')), t)) \<and>
   (given (ca_json a) = Some path \<and>
    respond C t (ReadBlobFileContents path) = Inr (JStr blob) \<and>
    json_loads C blob = Inl e \<longrightarrow>
      CreateCluster_take_action C a t =
        (Inl (CommandError
           (''An error occurred when reading template from file '' @ path @ '': '' @ e)),
         t @ [Called (ReadBlobFileContents path) (Inr (JStr blob))])) \<and>
   (given (sa_json s) = Some spath \<and>
    respond C t (GetResource Clusters (JStr (sa_cluster s))) = Inr cl \<and>
    respond C (t @ [Called (GetResource Clusters (JStr (sa_cluster s))) (Inr cl)])
      (ReadBlobFileContents spath) = Inr (JStr sblob) \<and>
    json_loads C sblob = Inl se \<longrightarrow>
      ScaleCluster_take_action C s t =
        (Inl (CommandError
           (''An error occurred when reading template from file '' @ spath @ '': '' @ se)),
         t @ [Called (GetResource Clusters (JStr (sa_cluster s))) (Inr cl),
              Called (ReadBlobFileContents spath) (Inr (JStr sblob))]))"
proof (intro conjI impI)
  assume "given (ca_json a) = None \<and>
    (given (ca_name a) = None \<or> given (ca_cluster_template a) = None \<or>
     given (ca_image a) = None)"
  then show "CreateCluster_take_action C a t =
        (Inl (CommandError
           (''At least --name , --cluster-template, --image arguments '' @
            ''should be specified or json template should be provided '' @
            ''with --json argument'')), t)"
    by (auto simp: CreateCluster_take_action_def create_from_flags_def act_defs
        split: option.splits)
next
  assume "given (ca_json a) = Some path \<and>
    respond C t (ReadBlobFileContents path) = Inr (JStr blob) \<and> json_loads C blob = Inl e"
  then show "CreateCluster_take_action C a t =
        (Inl (CommandError
           (''An error occurred when reading template from file '' @ path @ '': '' @ e)),
         t @ [Called (ReadBlobFileContents path) (Inr (JStr blob))])"
    by (simp add: CreateCluster_take_action_def create_from_json_def load_template_def act_defs)
next
  assume "given (sa_json s) = Some spath \<and>
    respond C t (GetResource Clusters (JStr (sa_cluster s))) = Inr cl \<and>
    respond C (t @ [Called (GetResource Clusters (JStr (sa_cluster s))) (Inr cl)])
      (ReadBlobFileContents spath) = Inr (JStr sblob) \<and>
    json_loads C sblob = Inl se"
  then show "ScaleCluster_take_action C s t =
        (Inl (CommandError
           (''An error occurred when reading template from file '' @ spath @ '': '' @ se)),
         t @ [Called (GetResource Clusters (JStr (sa_cluster s))) (Inr cl),
              Called (ReadBlobFileContents spath) (Inr (JStr sblob))])"
    by (simp add: ScaleCluster_take_action_def scale_from_json_def load_template_def act_defs)
qed

text \<open>
  The three cases at the example service: a create without a name, a create and a scale
  with the file \<^verbatim>\<open>bad.json\<close>, whose contents are an opening brace.
\<close>

theorem C1_witness:
  "CreateCluster_take_action (demo []) (demo_create_args\<lparr>ca_name := None\<rparr>) [] =
     (Inl (CommandError
        (''At least --name , --cluster-template, --image arguments '' @
         ''should be specified or json template should be provided '' @
         ''with --json argument'')), []) \<and>
   CreateCluster_take_action (demo []) (demo_create_args\<lparr>ca_json := Some ''bad.json''\<rparr>) [] =
     (Inl (CommandError
        (''An error occurred when reading template from file '' @ ''bad.json'' @ '': '' @
         ''No JSON object could be decoded'')),
      [Called (ReadBlobFileContents ''bad.json'') (Inr (JStr ''{''))]) \<and>
   ScaleCluster_take_action (demo [])
     \<lparr>sa_cluster = ''c1'', sa_node_groups = None, sa_json = Some ''bad.json'', sa_wait = False\<rparr> [] =
     (Inl (CommandError
        (''An error occurred when reading template from file '' @ ''bad.json'' @ '': '' @
         ''No JSON object could be decoded'')),
      [Called (GetResource Clusters (JStr ''c1'')) (Inr (Resource (demo_cluster ''c1'' ''alpha''))),
       Called (ReadBlobFileContents ''bad.json'') (Inr (JStr ''{''))])"
proof (intro conjI)
  show "CreateCluster_take_action (demo []) (demo_create_args\<lparr>ca_name := None\<rparr>) [] =
     (Inl (CommandError
        (''At least --name , --cluster-template, --image arguments '' @
         ''should be specified or json template should be provided '' @
         ''with --json argument'')), [])"
    using C1_validation_errors[where a = "demo_create_args\<lparr>ca_name := None\<rparr>"
        and C = "demo []" and t = "[]", THEN conjunct1]
    by (simp add: demo_create_args_def)
next
  show "CreateCluster_take_action (demo []) (demo_create_args\<lparr>ca_json := Some ''bad.json''\<rparr>) [] =
     (Inl (CommandError
        (''An error occurred when reading template from file '' @ ''bad.json'' @ '': '' @
         ''No JSON object could be decoded'')),
      [Called (ReadBlobFileContents ''bad.json'') (Inr (JStr ''{''))])"
    using C1_validation_errors[where a = "demo_create_args\<lparr>ca_json := Some ''bad.json''\<rparr>"
        and C = "demo []" and t = "[]" and path = "''bad.json''" and blob = "''{''"
        and e = "''No JSON object could be decoded''", THEN conjunct2, THEN conjunct1]
    by (simp add: demo_create_args_def demo_def demo_respond_def demo_json_loads_def
        demo_template_text_def quoted_def)
next
  show "ScaleCluster_take_action (demo [])
     \<lparr>sa_cluster = ''c1'', sa_node_groups = None, sa_json = Some ''bad.json'', sa_wait = False\<rparr> [] =
     (Inl (CommandError
        (''An error occurred when reading template from file '' @ ''bad.json'' @ '': '' @
         ''No JSON object could be decoded'')),
      [Called (GetResource Clusters (JStr ''c1'')) (Inr (Resource (demo_cluster ''c1'' ''alpha''))),
       Called (ReadBlobFileContents ''bad.json'') (Inr (JStr ''{''))])"
    using C1_validation_errors[where C = "demo []" and t = "[]"
        and s = "\<lparr>sa_cluster = ''c1'', sa_node_groups = None, sa_json = Some ''bad.json'',
                   sa_wait = False\<rparr>"
        and spath = "''bad.json''" and cl = "Resource (demo_cluster ''c1'' ''alpha'')"
        and sblob = "''{''" and se = "''No JSON object could be decoded''",
        THEN conjunct2, THEN conjunct2]
    by (simp add: demo_def demo_respond_def demo_json_loads_def
        demo_template_text_def quoted_def)
qed

text \<open>
  Claim C1 as stated fails for ScaleCluster: the file \<^verbatim>\<open>bad.json\<close> is not valid JSON, yet
  the command raises the error of the failed cluster lookup, not a CommandError, and
  never reads the file.
\<close>

theorem C1_counterexample:
  "respond (demo []) [] (ReadBlobFileContents ''bad.json'') = Inr (JStr ''{'') \<and>
   json_loads (demo []) ''{'' = Inl ''No JSON object could be decoded'' \<and>
   ScaleCluster_take_action (demo [])
     \<lparr>sa_cluster = ''ghost'', sa_node_groups = None, sa_json = Some ''bad.json'',
      sa_wait = False\<rparr> [] =
     (Inl (Raised (JStr ''NotFound'')),
      [Called (GetResource Clusters (JStr ''ghost'')) (Inl (Raised (JStr ''NotFound'')))])"
  by (simp add: ScaleCluster_take_action_def act_defs demo_def demo_respond_def
      demo_json_loads_def demo_template_text_def quoted_def)

subsection \<open>One acting call\<close>

text \<open>
  Claim C7, as amended. CreateCluster, UpdateCluster, ScaleCluster and ListClusters make
  at most one acting call (create, update, scale, list), and exactly one whenever they
  return normally, also with a count above one and with \<^verbatim>\<open>--wait\<close>: lookups, waits and
  re-fetches are other calls. ShowCluster makes no acting call, only its lookup.
  DeleteCluster makes at most one delete call per positional argument, and exactly one
  per argument whenever it returns normally.
\<close>

theorem C7_acting_calls:
  "exact 1 (CreateCluster_take_action C ca) \<and>
   exact 1 (UpdateCluster_take_action C ua) \<and>
   exact 1 (ScaleCluster_take_action C sa) \<and>
   exact 1 (ListClusters_take_action C la) \<and>
   exact 0 (ShowCluster_take_action C c) \<and>
   exact (length (da_cluster da)) (DeleteCluster_take_action C da)"
  using exact_CreateCluster exact_Update exact_Scale exact_List exact_Show exact_Delete
  by simp

text \<open>Two clusters created with \<^verbatim>\<open>--count 2 --wait\<close>: one acting call.\<close>

theorem C7_witness:
  "fst (CreateCluster_take_action (demo [])
          (demo_create_args\<lparr>ca_count := Some 2, ca_wait := True\<rparr>) [])
     = Inr [(''alpha'', JStr ''c1''), (''beta'', JStr ''c2'')] \<and>
   length (filter acts (snd (CreateCluster_take_action (demo [])
      (demo_create_args\<lparr>ca_count := Some 2, ca_wait := True\<rparr>) []))) = 1"
proof -
  let ?run = "CreateCluster_take_action (demo [])
                (demo_create_args\<lparr>ca_count := Some 2, ca_wait := True\<rparr>) []"
  have r: "fst ?run = Inr [(''alpha'', JStr ''c1''), (''beta'', JStr ''c2'')]"
    by (simp add: CreateCluster_take_action_def create_from_flags_def create_many_def
        demo_create_args_def run_defs demo_defs)
  from C7_acting_calls[of "demo []" "demo_create_args\<lparr>ca_count := Some 2, ca_wait := True\<rparr>"]
  have "exact 1 (CreateCluster_take_action (demo [])
                   (demo_create_args\<lparr>ca_count := Some 2, ca_wait := True\<rparr>))"
    by simp
  then obtain ext where "snd ?run = [] @ ext"
    "\<forall>x. fst ?run = Inr x \<longrightarrow> length (filter acts ext) = 1"
    unfolding exact_def by blast
  with r show ?thesis by simp
qed

text \<open>
  Claim C7 as stated fails: DeleteCluster with two positional arguments returns normally
  after two delete calls.
\<close>

theorem C7_counterexample:
  "fst (DeleteCluster_take_action (demo [])
          \<lparr>da_cluster = [''a'', ''b''], da_wait = False\<rparr> []) = Inr () \<and>
   length (filter acts (snd (DeleteCluster_take_action (demo [])
      \<lparr>da_cluster = [''a'', ''b''], da_wait = False\<rparr> []))) = 2"
  by (simp add: DeleteCluster_take_action_def run_defs demo_defs)

subsection \<open>Failed waits\<close>

text \<open>
  Claim C8 is about the error branch of the wait loop of a batch creation (lines 190 to
  195). Here two clusters are created with \<^verbatim>\<open>--count 2 --wait\<close> and the wait for the first
  one fails. The create response carries the ids under \<^verbatim>\<open>clusters\<close> and has no \<^verbatim>\<open>id\<close>:
  the command ends in a KeyError raised by \<^verbatim>\<open>data['id']\<close>, right after the failed wait, and
  nothing is logged.
\<close>

theorem C8_key_error:
  "fst (CreateCluster_take_action (demo [JStr ''c1''])
          (demo_create_args\<lparr>ca_count := Some 2, ca_wait := True\<rparr>) []) = Inl (KeyError ''id'') \<and>
   last (snd (CreateCluster_take_action (demo [JStr ''c1''])
          (demo_create_args\<lparr>ca_count := Some 2, ca_wait := True\<rparr>) []))
     = Called (WaitForStatus (JStr ''c1'')) (Inr (JBool False)) \<and>
   logged (snd (CreateCluster_take_action (demo [JStr ''c1''])
          (demo_create_args\<lparr>ca_count := Some 2, ca_wait := True\<rparr>) [])) = []"
  by code_simp

text \<open>
  Claim C2 says that a failed wait is logged and the command returns as it would have.
  At the example service this is what DeleteCluster, ScaleCluster and a single-cluster
  CreateCluster do: the result is that of the run whose wait succeeds, and one line is
  logged. A batch CreateCluster does not: with the wait for the second cluster failing it
  raises a KeyError and logs nothing, where the same invocation returns the table of names
  and ids when no wait fails.
\<close>

theorem C2_failed_wait:
  "fst (DeleteCluster_take_action (demo [JStr ''id-a''])
          \<lparr>da_cluster = [''a'', ''b''], da_wait = True\<rparr> []) = Inr () \<and>
   logged (snd (DeleteCluster_take_action (demo [JStr ''id-a''])
          \<lparr>da_cluster = [''a'', ''b''], da_wait = True\<rparr> []))
     = [(''Error occurred during cluster deleting: %s'', JStr ''id-a'')] \<and>
   fst (ScaleCluster_take_action (demo [JStr ''c1''])
          \<lparr>sa_cluster = ''c1'', sa_node_groups = Some [''worker:5''], sa_json = None,
           sa_wait = True\<rparr> [])
     = fst (ScaleCluster_take_action (demo [])
          \<lparr>sa_cluster = ''c1'', sa_node_groups = Some [''worker:5''], sa_json = None,
           sa_wait = True\<rparr> []) \<and>
   logged (snd (ScaleCluster_take_action (demo [JStr ''c1''])
          \<lparr>sa_cluster = ''c1'', sa_node_groups = Some [''worker:5''], sa_json = None,
           sa_wait = True\<rparr> []))
     = [(''Error occurred during cluster scaling: %s'', JStr ''c1'')] \<and>
   fst (CreateCluster_take_action (demo [JStr ''c1''])
          (demo_create_args\<lparr>ca_wait := True\<rparr>) [])
     = fst (CreateCluster_take_action (demo []) (demo_create_args\<lparr>ca_wait := True\<rparr>) []) \<and>
   logged (snd (CreateCluster_take_action (demo [JStr ''c1''])
          (demo_create_args\<lparr>ca_wait := True\<rparr>) []))
     = [(''Error occurred during cluster creation: %s'', JStr ''c1'')] \<and>
   fst (CreateCluster_take_action (demo [])
          (demo_create_args\<lparr>ca_count := Some 2, ca_wait := True\<rparr>) [])
     = Inr [(''alpha'', JStr ''c1''), (''beta'', JStr ''c2'')] \<and>
   fst (CreateCluster_take_action (demo [JStr ''c2''])
          (demo_create_args\<lparr>ca_count := Some 2, ca_wait := True\<rparr>) [])
     = Inl (KeyError ''id'') \<and>
   logged (snd (CreateCluster_take_action (demo [JStr ''c2''])
          (demo_create_args\<lparr>ca_count := Some 2, ca_wait := True\<rparr>) [])) = []"
  by code_simp

subsection \<open>UpdateCluster passes all four fields\<close>

lemma switch_cases:
  "switch opt b cur = Inr v \<Longrightarrow> v = Some b \<and> cur \<noteq> Some (\<not> b)"
  by (auto simp: switch_def split: if_splits)

lemma update_parse_tokens_public:
  "update_parse_tokens ts p = Inr q \<Longrightarrow>
     (OptPublic \<in> set ts \<longrightarrow> OptPrivate \<notin> set ts \<and> up_is_public q = Some True) \<and>
     (OptPrivate \<in> set ts \<longrightarrow> OptPublic \<notin> set ts \<and> up_is_public q = Some False) \<and>
     (OptPublic \<notin> set ts \<and> OptPrivate \<notin> set ts \<longrightarrow> up_is_public q = up_is_public p) \<and>
     (up_is_public p = Some True \<longrightarrow> OptPrivate \<notin> set ts) \<and>
     (up_is_public p = Some False \<longrightarrow> OptPublic \<notin> set ts)"
proof (induction ts p rule: update_parse_tokens.induct)
  case (1 p)
  then show ?case by simp
next
  case (2 s ts p)
  then show ?case by (auto split: if_splits)
next
  case (3 s ts p)
  then show ?case by auto
next
  case (4 s ts p)
  then show ?case by auto
next
  case (5 ts p)
  then show ?case by (auto simp: ebind_def split: sum.splits dest!: switch_cases)
next
  case (6 ts p)
  then show ?case by (auto simp: ebind_def split: sum.splits dest!: switch_cases)
next
  case (7 ts p)
  then show ?case by (auto simp: ebind_def split: sum.splits dest!: switch_cases)
next
  case (8 ts p)
  then show ?case by (auto simp: ebind_def split: sum.splits dest!: switch_cases)
qed

lemma update_parse_tokens_protected:
  "update_parse_tokens ts p = Inr q \<Longrightarrow>
     (OptProtected \<in> set ts \<longrightarrow> OptUnprotected \<notin> set ts \<and> up_is_protected q = Some True) \<and>
     (OptUnprotected \<in> set ts \<longrightarrow> OptProtected \<notin> set ts \<and> up_is_protected q = Some False) \<and>
     (OptProtected \<notin> set ts \<and> OptUnprotected \<notin> set ts \<longrightarrow>
        up_is_protected q = up_is_protected p) \<and>
     (up_is_protected p = Some True \<longrightarrow> OptUnprotected \<notin> set ts) \<and>
     (up_is_protected p = Some False \<longrightarrow> OptProtected \<notin> set ts)"
proof (induction ts p rule: update_parse_tokens.induct)
  case (1 p)
  then show ?case by simp
next
  case (2 s ts p)
  then show ?case by (auto split: if_splits)
next
  case (3 s ts p)
  then show ?case by auto
next
  case (4 s ts p)
  then show ?case by auto
next
  case (5 ts p)
  then show ?case by (auto simp: ebind_def split: sum.splits dest!: switch_cases)
next
  case (6 ts p)
  then show ?case by (auto simp: ebind_def split: sum.splits dest!: switch_cases)
next
  case (7 ts p)
  then show ?case by (auto simp: ebind_def split: sum.splits dest!: switch_cases)
next
  case (8 ts p)
  then show ?case by (auto simp: ebind_def split: sum.splits dest!: switch_cases)
qed

lemma update_parse_tokens_values:
  "update_parse_tokens ts p = Inr q \<Longrightarrow>
     ((\<forall>s. OptName s \<notin> set ts) \<longrightarrow> up_name q = up_name p) \<and>
     ((\<forall>s. OptDescription s \<notin> set ts) \<longrightarrow> up_description q = up_description p)"
proof (induction ts p rule: update_parse_tokens.induct)
  case (1 p)
  then show ?case by simp
next
  case (2 s ts p)
  then show ?case by (auto split: if_splits)
next
  case (3 s ts p)
  then show ?case by auto
next
  case (4 s ts p)
  then show ?case by auto
next
  case (5 ts p)
  then show ?case by (auto simp: ebind_def split: sum.splits)
next
  case (6 ts p)
  then show ?case by (auto simp: ebind_def split: sum.splits)
next
  case (7 ts p)
  then show ?case by (auto simp: ebind_def split: sum.splits)
next
  case (8 ts p)
  then show ?case by (auto simp: ebind_def split: sum.splits)
qed

lemma get_parser_flags:
  assumes "UpdateCluster_get_parser ts = Inr a"
  shows "ua_is_public a =
           (if OptPublic \<in> set ts then Some True
            else if OptPrivate \<in> set ts then Some False else None)"
    and "\<not> (OptPublic \<in> set ts \<and> OptPrivate \<in> set ts)"
    and "ua_is_protected a =
           (if OptProtected \<in> set ts then Some True
            else if OptUnprotected \<in> set ts then Some False else None)"
    and "\<not> (OptProtected \<in> set ts \<and> OptUnprotected \<in> set ts)"
    and "(\<forall>s. OptName s \<notin> set ts) \<longrightarrow> ua_name a = None"
    and "(\<forall>s. OptDescription s \<notin> set ts) \<longrightarrow> ua_description a = None"
proof -
  let ?p0 = "\<lparr>up_cluster = None, up_name = None, up_description = None,
               up_is_public = None, up_is_protected = None\<rparr>"
  from assms obtain q c where q: "update_parse_tokens ts ?p0 = Inr q"
    and a: "a = \<lparr>ua_cluster = c, ua_name = up_name q, ua_description = up_description q,
                ua_is_public = up_is_public q, ua_is_protected = up_is_protected q\<rparr>"
    by (auto simp: UpdateCluster_get_parser_def ebind_def split: sum.splits option.splits)
  note pub = update_parse_tokens_public[OF q]
  note pro = update_parse_tokens_protected[OF q]
  note val = update_parse_tokens_values[OF q]
  show "ua_is_public a =
           (if OptPublic \<in> set ts then Some True
            else if OptPrivate \<in> set ts then Some False else None)"
    using pub a by auto
  show "\<not> (OptPublic \<in> set ts \<and> OptPrivate \<in> set ts)" using pub by blast
  show "ua_is_protected a =
           (if OptProtected \<in> set ts then Some True
            else if OptUnprotected \<in> set ts then Some False else None)"
    using pro a by auto
  show "\<not> (OptProtected \<in> set ts \<and> OptUnprotected \<in> set ts)" using pro by blast
  show "(\<forall>s. OptName s \<notin> set ts) \<longrightarrow> ua_name a = None" using val a by simp
  show "(\<forall>s. OptDescription s \<notin> set ts) \<longrightarrow> ua_description a = None" using val a by simp
qed

lemma display_trace: "snd (display C d t) = t"
  by (simp add: display_def act_defs split: sum.splits)

lemma update_trace:
  "snd (UpdateCluster_take_action C a t) =
     (case respond C t (GetResourceId Clusters (JStr (ua_cluster a))) of
        Inl e \<Rightarrow> t @ [Called (GetResourceId Clusters (JStr (ua_cluster a))) (Inl e)]
      | Inr cid \<Rightarrow>
          t @ [Called (GetResourceId Clusters (JStr (ua_cluster a))) (Inr cid),
               Called (ClustersUpdate cid
                 [(''name'', opt_str (ua_name a)),
                  (''description'', opt_str (ua_description a)),
                  (''is_public'', opt_bool (ua_is_public a)),
                  (''is_protected'', opt_bool (ua_is_protected a))])
                 (respond C (t @ [Called (GetResourceId Clusters (JStr (ua_cluster a))) (Inr cid)])
                    (ClustersUpdate cid
                 [(''name'', opt_str (ua_name a)),
                  (''description'', opt_str (ua_description a)),
                  (''is_public'', opt_bool (ua_is_public a)),
                  (''is_protected'', opt_bool (ua_is_protected a))]))])"
  by (simp add: UpdateCluster_take_action_def act_defs display_trace split: sum.splits prod.splits)

lemma opt_str_case: "opt_str x = (case x of None \<Rightarrow> JNone | Some s \<Rightarrow> JStr s)"
  by (cases x) simp_all

lemma opt_bool_case: "opt_bool x = (case x of None \<Rightarrow> JNone | Some b \<Rightarrow> JBool b)"
  by (cases x) simp_all

text \<open>
  Claim C10. Every update call of UpdateCluster carries exactly the four keyword arguments
  \<^verbatim>\<open>name\<close>, \<^verbatim>\<open>description\<close>, \<^verbatim>\<open>is_public\<close>, \<^verbatim>\<open>is_protected\<close>, each with the value of its
  option or None when the option was not given; when the lookup of the cluster returns,
  that call is made. The parser leaves \<^verbatim>\<open>is_public\<close> and \<^verbatim>\<open>is_protected\<close> at None unless one
  switch of the pair is given, refuses both switches of a pair together, and leaves
  \<^verbatim>\<open>name\<close> and \<^verbatim>\<open>description\<close> at None unless given.
\<close>

theorem C10_update_passes_all_four:
  "(\<exists>ext. snd (UpdateCluster_take_action C a t) = t @ ext \<and>
      (\<forall>cid kw r. Called (ClustersUpdate cid kw) r \<in> set ext \<longrightarrow>
         kw = [(''name'', case ua_name a of None \<Rightarrow> JNone | Some s \<Rightarrow> JStr s),
               (''description'', case ua_description a of None \<Rightarrow> JNone | Some s \<Rightarrow> JStr s),
               (''is_public'', case ua_is_public a of None \<Rightarrow> JNone | Some b \<Rightarrow> JBool b),
               (''is_protected'',
                  case ua_is_protected a of None \<Rightarrow> JNone | Some b \<Rightarrow> JBool b)])) \<and>
   (respond C t (GetResourceId Clusters (JStr (ua_cluster a))) = Inr lid \<longrightarrow>
      (\<exists>r. snd (UpdateCluster_take_action C a t) =
         t @ [Called (GetResourceId Clusters (JStr (ua_cluster a))) (Inr lid),
              Called (ClustersUpdate lid
                [(''name'', case ua_name a of None \<Rightarrow> JNone | Some s \<Rightarrow> JStr s),
                 (''description'', case ua_description a of None \<Rightarrow> JNone | Some s \<Rightarrow> JStr s),
                 (''is_public'', case ua_is_public a of None \<Rightarrow> JNone | Some b \<Rightarrow> JBool b),
                 (''is_protected'',
                    case ua_is_protected a of None \<Rightarrow> JNone | Some b \<Rightarrow> JBool b)]) r])) \<and>
   (UpdateCluster_get_parser ts = Inr a \<longrightarrow>
      ua_is_public a =
        (if OptPublic \<in> set ts then Some True
         else if OptPrivate \<in> set ts then Some False else None) \<and>
      \<not> (OptPublic \<in> set ts \<and> OptPrivate \<in> set ts) \<and>
      ua_is_protected a =
        (if OptProtected \<in> set ts then Some True
         else if OptUnprotected \<in> set ts then Some False else None) \<and>
      \<not> (OptProtected \<in> set ts \<and> OptUnprotected \<in> set ts) \<and>
      ((\<forall>s. OptName s \<notin> set ts) \<longrightarrow> ua_name a = None) \<and>
      ((\<forall>s. OptDescription s \<notin> set ts) \<longrightarrow> ua_description a = None))"
proof (intro conjI impI)
  show "\<exists>ext. snd (UpdateCluster_take_action C a t) = t @ ext \<and>
      (\<forall>cid kw r. Called (ClustersUpdate cid kw) r \<in> set ext \<longrightarrow>
         kw = [(''name'', case ua_name a of None \<Rightarrow> JNone | Some s \<Rightarrow> JStr s),
               (''description'', case ua_description a of None \<Rightarrow> JNone | Some s \<Rightarrow> JStr s),
               (''is_public'', case ua_is_public a of None \<Rightarrow> JNone | Some b \<Rightarrow> JBool b),
               (''is_protected'',
                  case ua_is_protected a of None \<Rightarrow> JNone | Some b \<Rightarrow> JBool b)])"
    by (cases "respond C t (GetResourceId Clusters (JStr (ua_cluster a)))")
       (auto simp: update_trace opt_str_case opt_bool_case)
next
  assume "respond C t (GetResourceId Clusters (JStr (ua_cluster a))) = Inr lid"
  then show "\<exists>r. snd (UpdateCluster_take_action C a t) =
         t @ [Called (GetResourceId Clusters (JStr (ua_cluster a))) (Inr lid),
              Called (ClustersUpdate lid
                [(''name'', case ua_name a of None \<Rightarrow> JNone | Some s \<Rightarrow> JStr s),
                 (''description'', case ua_description a of None \<Rightarrow> JNone | Some s \<Rightarrow> JStr s),
                 (''is_public'', case ua_is_public a of None \<Rightarrow> JNone | Some b \<Rightarrow> JBool b),
                 (''is_protected'',
                    case ua_is_protected a of None \<Rightarrow> JNone | Some b \<Rightarrow> JBool b)]) r]"
    by (simp add: update_trace opt_str_case opt_bool_case)
qed (use get_parser_flags[of ts a] in blast)+


text \<open>An update with no option at all: four None values are sent.\<close>

theorem C10_witness:
  "UpdateCluster_get_parser [Positional ''c1''] =
     Inr \<lparr>ua_cluster = ''c1'', ua_name = None, ua_description = None,
          ua_is_public = None, ua_is_protected = None\<rparr> \<and>
   (\<exists>r. snd (UpdateCluster_take_action (demo [])
            \<lparr>ua_cluster = ''c1'', ua_name = None, ua_description = None,
             ua_is_public = None, ua_is_protected = None\<rparr> []) =
      [Called (GetResourceId Clusters (JStr ''c1'')) (Inr (JStr ''id-c1'')),
       Called (ClustersUpdate (JStr ''id-c1'')
         [(''name'', JNone), (''description'', JNone), (''is_public'', JNone),
          (''is_protected'', JNone)]) r])"
proof
  show "UpdateCluster_get_parser [Positional ''c1''] =
     Inr \<lparr>ua_cluster = ''c1'', ua_name = None, ua_description = None,
          ua_is_public = None, ua_is_protected = None\<rparr>"
    by (simp add: UpdateCluster_get_parser_def ebind_def)
next
  have "respond (demo []) [] (GetResourceId Clusters (JStr ''c1'')) = Inr (JStr ''id-c1'')"
    by (simp add: demo_def demo_respond_def)
  with C10_update_passes_all_four[where C = "demo []" and t = "[]" and lid = "JStr ''id-c1''"
      and a = "\<lparr>ua_cluster = ''c1'', ua_name = None, ua_description = None,
                 ua_is_public = None, ua_is_protected = None\<rparr>"]
  show "\<exists>r. snd (UpdateCluster_take_action (demo [])
            \<lparr>ua_cluster = ''c1'', ua_name = None, ua_description = None,
             ua_is_public = None, ua_is_protected = None\<rparr> []) =
      [Called (GetResourceId Clusters (JStr ''c1'')) (Inr (JStr ''id-c1'')),
       Called (ClustersUpdate (JStr ''id-c1'')
         [(''name'', JNone), (''description'', JNone), (''is_public'', JNone),
          (''is_protected'', JNone)]) r]"
    by simp
qed

subsection \<open>The JSON file overrides the flags\<close>

lemma quiet_ext:
  assumes "exact 0 m"
  shows "\<exists>ext. snd (m t) = t @ ext \<and> filter acts ext = []"
  using assms unfolding exact_def by (metis le_zero_eq length_0_conv)

lemma andthen_quiet_ext:
  assumes m: "m t = (res, t1)" and f: "\<And>x. exact 0 (f x)"
  shows "\<exists>rest. snd (andthen m f t) = t1 @ rest \<and> filter acts rest = []"
proof (cases res)
  case (Inl e)
  with m show ?thesis by (simp add: andthen_def)
next
  case (Inr x)
  with m have "andthen m f t = f x t1" by (simp add: andthen_def)
  with quiet_ext[OF f, of x t1] show ?thesis by simp
qed

lemma exact_create_rest:
  "exact 0 (case x of (data, count) \<Rightarrow>
     andthen (lift (count_gt_1 count)) (\<lambda>many.
       if many then create_many C w data else create_one C w data))"
  by (cases x) (auto intro!: quiet_intros exact_create_many exact_create_one)

lemma map_of_rename_net_id:
  "map_of (rename_net_id d) =
     (case map_of d ''neutron_management_network'' of
        None \<Rightarrow> map_of d
      | Some v \<Rightarrow> ((map_of d)(''neutron_management_network'' := None))(''net_id'' \<mapsto> v))"
  by (simp add: rename_net_id_def update_conv' delete_conv' split: option.splits)

lemma create_from_json_run:
  assumes "respond C t (ReadBlobFileContents path) = Inr (JStr blob)"
    and "json_loads C blob = Inr (JDict d)"
  shows "\<exists>res r. create_from_json C path c t =
     (res, t @ [Called (ReadBlobFileContents path) (Inr (JStr blob)),
                Called (ClustersCreate (rename_net_id d)) r])"
  using assms
  by (simp add: create_from_json_def load_template_def act_defs Let_def split: sum.splits)

text \<open>
  Claim C5. With \<^verbatim>\<open>--json\<close>, once the file is read and parses to a dictionary, the run
  reads the file, then makes its only acting call: a create whose keyword arguments are
  the parsed document with \<^verbatim>\<open>neutron_management_network\<close> renamed to \<^verbatim>\<open>net_id\<close>. The whole
  run is the one of an invocation in which \<^verbatim>\<open>--name\<close>, \<^verbatim>\<open>--cluster-template\<close>, \<^verbatim>\<open>--image\<close>,
  \<^verbatim>\<open>--description\<close>, \<^verbatim>\<open>--user-keypair\<close>, \<^verbatim>\<open>--neutron-network\<close> are absent and \<^verbatim>\<open>--public\<close>,
  \<^verbatim>\<open>--protected\<close>, \<^verbatim>\<open>--transient\<close> are off: none of them contributes.
\<close>

theorem C5_json_overrides_flags:
  "given (ca_json a) = Some path \<and>
   respond C t (ReadBlobFileContents path) = Inr (JStr blob) \<and>
   json_loads C blob = Inr (JDict d) \<longrightarrow>
     (\<exists>r rest. snd (CreateCluster_take_action C a t) =
        t @ [Called (ReadBlobFileContents path) (Inr (JStr blob)),
             Called (ClustersCreate (rename_net_id d)) r] @ rest \<and>
        filter acts rest = []) \<and>
     map_of (rename_net_id d) =
       (case map_of d ''neutron_management_network'' of
          None \<Rightarrow> map_of d
        | Some v \<Rightarrow> ((map_of d)(''neutron_management_network'' := None))(''net_id'' \<mapsto> v)) \<and>
     CreateCluster_take_action C a t =
       CreateCluster_take_action C
         \<lparr>ca_name = None, ca_cluster_template = None, ca_image = None, ca_description = None,
          ca_user_keypair = None, ca_neutron_network = None, ca_count = ca_count a,
          ca_public = False, ca_protected = False, ca_transient = False,
          ca_json = ca_json a, ca_wait = ca_wait a\<rparr> t"
proof (intro impI conjI)
  assume h: "given (ca_json a) = Some path \<and>
   respond C t (ReadBlobFileContents path) = Inr (JStr blob) \<and>
   json_loads C blob = Inr (JDict d)"
  then obtain res r where run: "create_from_json C path (opt_int (ca_count a)) t =
     (res, t @ [Called (ReadBlobFileContents path) (Inr (JStr blob)),
                Called (ClustersCreate (rename_net_id d)) r])"
    using create_from_json_run by blast
  let ?f = "\<lambda>x. case x of (data, count) \<Rightarrow>
         andthen (lift (count_gt_1 count)) (\<lambda>many.
           if many then create_many C (ca_wait a) data else create_one C (ca_wait a) data)"
  have eq: "CreateCluster_take_action C a =
     andthen (create_from_json C path (opt_int (ca_count a))) ?f"
    using h by (simp add: CreateCluster_take_action_def)
  have "\<exists>rest. snd (andthen (create_from_json C path (opt_int (ca_count a))) ?f t) =
      (t @ [Called (ReadBlobFileContents path) (Inr (JStr blob)),
            Called (ClustersCreate (rename_net_id d)) r]) @ rest \<and> filter acts rest = []"
    by (rule andthen_quiet_ext[where m = "create_from_json C path (opt_int (ca_count a))"
          and t = t, OF run]) (rule exact_create_rest)
  then show "\<exists>r rest. snd (CreateCluster_take_action C a t) =
        t @ [Called (ReadBlobFileContents path) (Inr (JStr blob)),
             Called (ClustersCreate (rename_net_id d)) r] @ rest \<and>
        filter acts rest = []"
    unfolding eq by auto
  show "map_of (rename_net_id d) =
       (case map_of d ''neutron_management_network'' of
          None \<Rightarrow> map_of d
        | Some v \<Rightarrow> ((map_of d)(''neutron_management_network'' := None))(''net_id'' \<mapsto> v))"
    by (rule map_of_rename_net_id)
  show "CreateCluster_take_action C a t =
       CreateCluster_take_action C
         \<lparr>ca_name = None, ca_cluster_template = None, ca_image = None, ca_description = None,
          ca_user_keypair = None, ca_neutron_network = None, ca_count = ca_count a,
          ca_public = False, ca_protected = False, ca_transient = False,
          ca_json = ca_json a, ca_wait = ca_wait a\<rparr> t"
    using h by (simp add: CreateCluster_take_action_def cong: if_cong)
qed

text \<open>
  A create from \<^verbatim>\<open>cluster.json\<close> with \<^verbatim>\<open>--name ignored --public\<close>: the request is the
  document, with \<^verbatim>\<open>net_id\<close>.
\<close>

theorem C5_witness:
  "\<exists>r rest. snd (CreateCluster_take_action (demo [])
      (demo_create_args\<lparr>ca_name := Some ''ignored'', ca_public := True,
                         ca_json := Some ''cluster.json''\<rparr>) []) =
     [Called (ReadBlobFileContents ''cluster.json'') (Inr (JStr demo_template_text)),
      Called (ClustersCreate
        [(''name'', JStr ''alpha''), (''plugin_name'', JStr ''vanilla''),
         (''hadoop_version'', JStr ''2.7.1''), (''net_id'', JStr ''net-1'')]) r] @ rest"
proof -
  have 1: "given (ca_json (demo_create_args\<lparr>ca_name := Some ''ignored'', ca_public := True,
                         ca_json := Some ''cluster.json''\<rparr>)) = Some ''cluster.json''"
    by simp
  have 2: "respond (demo []) [] (ReadBlobFileContents ''cluster.json'') =
             Inr (JStr demo_template_text)"
    by (simp add: demo_def demo_respond_def)
  have 3: "json_loads (demo []) demo_template_text = Inr (JDict demo_template)"
    by (simp add: demo_def demo_json_loads_def)
  have 4: "rename_net_id demo_template =
     [(''name'', JStr ''alpha''), (''plugin_name'', JStr ''vanilla''),
      (''hadoop_version'', JStr ''2.7.1''), (''net_id'', JStr ''net-1'')]"
    by (simp add: rename_net_id_def demo_template_def)
  from C5_json_overrides_flags[where C = "demo []" and t = "[]" and path = "''cluster.json''"
      and blob = demo_template_text and d = demo_template
      and a = "demo_create_args\<lparr>ca_name := Some ''ignored'', ca_public := True,
                         ca_json := Some ''cluster.json''\<rparr>"] 1 2 3
  show ?thesis unfolding 4 by auto
qed

subsection \<open>The displayed record\<close>

lemma map_of_prepare_data:
  "map_of (prepare_data d fs) k = (if k \<in> set fs then map_of d k else None)"
  by (induction fs) (auto simp: prepare_data_def List.map_filter_simps split: option.splits)

lemma keys_prepare_data:
  "map fst (prepare_data d fs) = filter (\<lambda>k. map_of d k \<noteq> None) fs"
  by (induction fs) (auto simp: prepare_data_def List.map_filter_simps split: option.splits)

lemma format_cluster_output_map:
  assumes "format_cluster_output C data = Inr out"
  shows "\<exists>d v i ngs s aa f.
     data = JDict d \<and>
     map_of d ''hadoop_version'' = Some v \<and>
     map_of d ''default_image_id'' = Some i \<and>
     map_of d ''node_groups'' = Some ngs \<and> format_node_groups_list C ngs = Inr s \<and>
     map_of d ''anti_affinity'' = Some aa \<and> format_list C aa = Inr f \<and>
     map_of out =
       (map_of d)(''hadoop_version'' := None, ''version'' \<mapsto> v,
                  ''default_image_id'' := None, ''image'' \<mapsto> i,
                  ''node_groups'' \<mapsto> JStr s, ''anti_affinity'' \<mapsto> f)"
proof -
  from assms obtain d where d: "data = JDict d"
    by (cases data) (auto simp: format_cluster_output_def ebind_def)
  from assms show ?thesis unfolding d
    by (auto simp: format_cluster_output_def ebind_def dict_pop_def dict_lookup_def
        update_conv' delete_conv' split: sum.splits option.splits if_splits)
qed

lemma emap_format_node_group:
  "list_all (\<lambda>g. map_of g ''name'' \<noteq> None \<and> map_of g ''count'' \<noteq> None) gs \<Longrightarrow>
   emap (format_node_group C) (map JDict gs) =
     Inr (map (\<lambda>g. py_str C (the (map_of g ''name'')) @ '':'' @
                     py_str C (the (map_of g ''count''))) gs)"
  by (induction gs) (auto simp: format_node_group_def ebind_def dict_lookup_def)

lemma format_node_groups_list_dicts:
  "list_all (\<lambda>g. map_of g ''name'' \<noteq> None \<and> map_of g ''count'' \<noteq> None) gs \<Longrightarrow>
   format_node_groups_list C (JList (map JDict gs)) =
     Inr (join '', '' (map (\<lambda>g. py_str C (the (map_of g ''name'')) @ '':'' @
                                py_str C (the (map_of g ''count''))) gs))"
  by (simp add: format_node_groups_list_def ebind_def emap_format_node_group)

lemma display_run:
  "display C data t = (Inr shown, t') \<Longrightarrow>
     t' = t \<and> (\<exists>out. format_cluster_output C data = Inr out \<and>
                 shown = prepare_data out CLUSTER_FIELDS)"
  by (auto simp: display_def act_defs split: sum.splits)



lemma andthen_InrD:
  "andthen m f t = (Inr y, t1) \<Longrightarrow> \<exists>x t2. m t = (Inr x, t2) \<and> f x t2 = (Inr y, t1)"
  by (auto simp: andthen_def split: prod.splits sum.splits)

lemma display_last:
  assumes "display C data t2 = (Inr shown, t1)"
  shows "\<exists>rec. display C rec t1 = (Inr shown, t1)"
  using assms display_run[OF assms] by auto

lemma show_displays:
  "ShowCluster_take_action C c t0 = (Inr shown, t1) \<Longrightarrow>
     \<exists>rec. display C rec t1 = (Inr shown, t1)"
  unfolding ShowCluster_take_action_def
  apply (drule andthen_InrD, clarify)
  apply (drule andthen_InrD, clarify)
  apply (erule display_last)
  done

lemma update_displays:
  "UpdateCluster_take_action C a t0 = (Inr shown, t1) \<Longrightarrow>
     \<exists>rec. display C rec t1 = (Inr shown, t1)"
  unfolding UpdateCluster_take_action_def
  apply (drule andthen_InrD, clarify)
  apply (drule andthen_InrD, clarify)
  apply (drule andthen_InrD, clarify)
  apply (erule display_last)
  done

lemma scale_displays:
  "ScaleCluster_take_action C a t0 = (Inr shown, t1) \<Longrightarrow>
     \<exists>rec. display C rec t1 = (Inr shown, t1)"
  unfolding ScaleCluster_take_action_def
  apply (drule andthen_InrD, clarify)
  apply (drule andthen_InrD, clarify)
  apply (drule andthen_InrD, clarify)
  apply (erule display_last)
  done

lemma create_one_displays:
  "create_one C w data0 t0 = (Inr shown, t1) \<Longrightarrow>
     \<exists>rec. display C rec t1 = (Inr shown, t1)"
  unfolding create_one_def
  apply (drule andthen_InrD, clarify)
  apply (erule display_last)
  done

lemma renamed_not_listed:
  "''hadoop_version'' \<notin> set CLUSTER_FIELDS" "''default_image_id'' \<notin> set CLUSTER_FIELDS"
  by (simp_all add: CLUSTER_FIELDS_def)

lemma shown_keys:
  assumes "map_of out =
       (map_of d)(''hadoop_version'' := None, ''version'' \<mapsto> v,
                  ''default_image_id'' := None, ''image'' \<mapsto> i,
                  ''node_groups'' \<mapsto> JStr s, ''anti_affinity'' \<mapsto> f)"
  shows "filter (\<lambda>k. map_of out k \<noteq> None) CLUSTER_FIELDS =
         filter (\<lambda>k. k \<in> {''version'', ''image'', ''node_groups'', ''anti_affinity''} \<or>
                      map_of d k \<noteq> None) CLUSTER_FIELDS"
  unfolding assms by (rule filter_cong[OF refl]) (auto simp: CLUSTER_FIELDS_def)

text \<open>
  Claim C4, as amended. Whenever the reshaping of a record returns the displayed table:
  the record is a dictionary; the table has \<^verbatim>\<open>version\<close> with the value of the record's
  \<^verbatim>\<open>hadoop_version\<close> and \<^verbatim>\<open>image\<close> with the value of its \<^verbatim>\<open>default_image_id\<close>;
  \<^verbatim>\<open>node_groups\<close> is the string made from the record's node groups and \<^verbatim>\<open>anti_affinity\<close> is
  \<^verbatim>\<open>format_list\<close> of the record's value; every other field of the table is a field of
  \<^verbatim>\<open>CLUSTER_FIELDS\<close> with the record's value, and the keys of the table are, in the order of
  \<^verbatim>\<open>CLUSTER_FIELDS\<close>, those fields of \<^verbatim>\<open>CLUSTER_FIELDS\<close> that the reshaped record has: all of
  them when the record has them all. The string made from a list of node groups with a
  name and a count is their \<^verbatim>\<open>name:count\<close> texts in list order, joined by a comma and a
  space. The table that ShowCluster, UpdateCluster, ScaleCluster and the single-cluster
  branch of CreateCluster return is such a reshaping of a record.
\<close>

theorem C4_reshaped_record:
  "(display C data t = (Inr shown, t') \<longrightarrow>
      (\<exists>d v i ngs s aa f.
         data = JDict d \<and>
         map_of d ''hadoop_version'' = Some v \<and> map_of shown ''version'' = Some v \<and>
         map_of d ''default_image_id'' = Some i \<and> map_of shown ''image'' = Some i \<and>
         map_of d ''node_groups'' = Some ngs \<and> format_node_groups_list C ngs = Inr s \<and>
         map_of shown ''node_groups'' = Some (JStr s) \<and>
         map_of d ''anti_affinity'' = Some aa \<and> format_list C aa = Inr f \<and>
         map_of shown ''anti_affinity'' = Some f \<and>
         (\<forall>k. k \<notin> {''version'', ''image'', ''node_groups'', ''anti_affinity''} \<longrightarrow>
            map_of shown k = (if k \<in> set CLUSTER_FIELDS then map_of d k else None)) \<and>
         map fst shown =
           filter (\<lambda>k. k \<in> {''version'', ''image'', ''node_groups'', ''anti_affinity''} \<or>
                        map_of d k \<noteq> None) CLUSTER_FIELDS \<and>
         (list_all (\<lambda>k. k \<in> {''version'', ''image'', ''node_groups'', ''anti_affinity''} \<or>
                         map_of d k \<noteq> None) CLUSTER_FIELDS \<longrightarrow>
            map fst shown = CLUSTER_FIELDS))) \<and>
   (list_all (\<lambda>g. map_of g ''name'' \<noteq> None \<and> map_of g ''count'' \<noteq> None) gs \<longrightarrow>
      format_node_groups_list C (JList (map JDict gs)) =
        Inr (join '', '' (map (\<lambda>g. py_str C (the (map_of g ''name'')) @ '':'' @
                                   py_str C (the (map_of g ''count''))) gs))) \<and>
   (ShowCluster_take_action C c t0 = (Inr shown1, t1) \<longrightarrow>
      (\<exists>rec. display C rec t1 = (Inr shown1, t1))) \<and>
   (UpdateCluster_take_action C ua t0 = (Inr shown2, t2) \<longrightarrow>
      (\<exists>rec. display C rec t2 = (Inr shown2, t2))) \<and>
   (ScaleCluster_take_action C sa t0 = (Inr shown3, t3) \<longrightarrow>
      (\<exists>rec. display C rec t3 = (Inr shown3, t3))) \<and>
   (create_one C w data0 t0 = (Inr shown4, t4) \<longrightarrow>
      (\<exists>rec. display C rec t4 = (Inr shown4, t4)))"
proof (intro conjI impI)
  assume run: "display C data t = (Inr shown, t')"
  from display_run[OF run] obtain out where out: "format_cluster_output C data = Inr out"
    and shown: "shown = prepare_data out CLUSTER_FIELDS" by blast
  from format_cluster_output_map[OF out] obtain d v i ngs s aa f where
    d: "data = JDict d" "map_of d ''hadoop_version'' = Some v"
      "map_of d ''default_image_id'' = Some i"
      "map_of d ''node_groups'' = Some ngs" "format_node_groups_list C ngs = Inr s"
      "map_of d ''anti_affinity'' = Some aa" "format_list C aa = Inr f"
    and m: "map_of out =
       (map_of d)(''hadoop_version'' := None, ''version'' \<mapsto> v,
                  ''default_image_id'' := None, ''image'' \<mapsto> i,
                  ''node_groups'' \<mapsto> JStr s, ''anti_affinity'' \<mapsto> f)"
    by blast
  have k1: "map_of shown ''version'' = Some v" "map_of shown ''image'' = Some i"
    "map_of shown ''node_groups'' = Some (JStr s)" "map_of shown ''anti_affinity'' = Some f"
    unfolding shown map_of_prepare_data m by (simp_all add: CLUSTER_FIELDS_def)
  have k2: "\<forall>k. k \<notin> {''version'', ''image'', ''node_groups'', ''anti_affinity''} \<longrightarrow>
            map_of shown k = (if k \<in> set CLUSTER_FIELDS then map_of d k else None)"
    unfolding shown map_of_prepare_data m using renamed_not_listed by auto
  have k3: "map fst shown =
           filter (\<lambda>k. k \<in> {''version'', ''image'', ''node_groups'', ''anti_affinity''} \<or>
                        map_of d k \<noteq> None) CLUSTER_FIELDS"
    unfolding shown keys_prepare_data by (rule shown_keys[OF m])
  have k4: "list_all (\<lambda>k. k \<in> {''version'', ''image'', ''node_groups'', ''anti_affinity''} \<or>
                         map_of d k \<noteq> None) CLUSTER_FIELDS \<longrightarrow>
            map fst shown = CLUSTER_FIELDS"
    unfolding k3 by (simp add: list_all_iff)
  from d k1 k2 k3 k4
  show "\<exists>d v i ngs s aa f.
         data = JDict d \<and>
         map_of d ''hadoop_version'' = Some v \<and> map_of shown ''version'' = Some v \<and>
         map_of d ''default_image_id'' = Some i \<and> map_of shown ''image'' = Some i \<and>
         map_of d ''node_groups'' = Some ngs \<and> format_node_groups_list C ngs = Inr s \<and>
         map_of shown ''node_groups'' = Some (JStr s) \<and>
         map_of d ''anti_affinity'' = Some aa \<and> format_list C aa = Inr f \<and>
         map_of shown ''anti_affinity'' = Some f \<and>
         (\<forall>k. k \<notin> {''version'', ''image'', ''node_groups'', ''anti_affinity''} \<longrightarrow>
            map_of shown k = (if k \<in> set CLUSTER_FIELDS then map_of d k else None)) \<and>
         map fst shown =
           filter (\<lambda>k. k \<in> {''version'', ''image'', ''node_groups'', ''anti_affinity''} \<or>
                        map_of d k \<noteq> None) CLUSTER_FIELDS \<and>
         (list_all (\<lambda>k. k \<in> {''version'', ''image'', ''node_groups'', ''anti_affinity''} \<or>
                         map_of d k \<noteq> None) CLUSTER_FIELDS \<longrightarrow>
            map fst shown = CLUSTER_FIELDS)"
    by blast
qed (auto dest: show_displays update_displays scale_displays create_one_displays
      simp: format_node_groups_list_dicts)


text \<open>The record of the example cluster has every field: the table has all sixteen.\<close>

theorem C4_witness:
  "display (demo []) (JDict (demo_cluster ''c1'' ''alpha'')) [] =
     (Inr [(''cluster_template_id'', JStr ''ct-1''), (''use_autoconfig'', JBool True),
           (''user_keypair_id'', JNone), (''status'', JStr ''Active''),
           (''image'', JStr ''img-1''), (''node_groups'', JStr ''master:1, worker:3''),
           (''id'', JStr ''c1''), (''anti_affinity'', JStr []),
           (''version'', JStr ''2.7.1''), (''name'', JStr ''alpha''),
           (''is_transient'', JBool False), (''is_protected'', JBool False),
           (''description'', JNone), (''is_public'', JBool False),
           (''neutron_management_network'', JNone), (''plugin_name'', JStr ''vanilla'')], []) \<and>
   map fst [(''cluster_template_id'', JStr ''ct-1''), (''use_autoconfig'', JBool True),
           (''user_keypair_id'', JNone), (''status'', JStr ''Active''),
           (''image'', JStr ''img-1''), (''node_groups'', JStr ''master:1, worker:3''),
           (''id'', JStr ''c1''), (''anti_affinity'', JStr []),
           (''version'', JStr ''2.7.1''), (''name'', JStr ''alpha''),
           (''is_transient'', JBool False), (''is_protected'', JBool False),
           (''description'', JNone), (''is_public'', JBool False),
           (''neutron_management_network'', JNone), (''plugin_name'', JStr ''vanilla'')]
     = CLUSTER_FIELDS"
proof -
  let ?shown = "[(''cluster_template_id'', JStr ''ct-1''), (''use_autoconfig'', JBool True),
           (''user_keypair_id'', JNone), (''status'', JStr ''Active''),
           (''image'', JStr ''img-1''), (''node_groups'', JStr ''master:1, worker:3''),
           (''id'', JStr ''c1''), (''anti_affinity'', JStr []),
           (''version'', JStr ''2.7.1''), (''name'', JStr ''alpha''),
           (''is_transient'', JBool False), (''is_protected'', JBool False),
           (''description'', JNone), (''is_public'', JBool False),
           (''neutron_management_network'', JNone), (''plugin_name'', JStr ''vanilla'')]"
  have run: "display (demo []) (JDict (demo_cluster ''c1'' ''alpha'')) [] = (Inr ?shown, [])"
    by code_simp
  have full: "list_all (\<lambda>k. k \<in> {''version'', ''image'', ''node_groups'', ''anti_affinity''} \<or>
                         map_of (demo_cluster ''c1'' ''alpha'') k \<noteq> None) CLUSTER_FIELDS"
    by code_simp
  from C4_reshaped_record[where C = "demo []" and data = "JDict (demo_cluster ''c1'' ''alpha'')"
      and t = "[]" and shown = ?shown and t' = "[]", THEN conjunct1, rule_format, OF run]
  obtain d where "JDict (demo_cluster ''c1'' ''alpha'') = JDict d"
    and "list_all (\<lambda>k. k \<in> {''version'', ''image'', ''node_groups'', ''anti_affinity''} \<or>
                         map_of d k \<noteq> None) CLUSTER_FIELDS \<longrightarrow>
            map fst ?shown = CLUSTER_FIELDS"
    by blast
  with full have "map fst ?shown = CLUSTER_FIELDS" by simp
  with run show ?thesis by (intro conjI)
qed

text \<open>
  Claim C4 as stated fails: ShowCluster on a record that has only six of the fields (as
  an older service may return) displays six fields, not the sixteen of \<^verbatim>\<open>CLUSTER_FIELDS\<close>.
\<close>

theorem C4_counterexample:
  "fst (ShowCluster_take_action (demo []) ''old'' []) =
     Inr [(''image'', JStr ''img-0''), (''node_groups'', JStr []), (''id'', JStr ''c0''),
          (''anti_affinity'', JStr []), (''version'', JStr ''1.2.1''),
          (''name'', JStr ''legacy'')] \<and>
   length CLUSTER_FIELDS = 16"
  by code_simp

subsection \<open>Batch or single creation\<close>

lemma lift_InrD: "lift r t = (Inr x, t1) \<Longrightarrow> r = Inr x \<and> t1 = t"
  by (simp add: lift_def)

lemma get_clusters_run:
  "get_clusters C ids t = (Inr cs, t1) \<Longrightarrow>
     length cs = length ids \<and>
     t1 = t @ map2 (\<lambda>i c. Called (GetResource Clusters i) (Inr c)) ids cs"
proof (induction ids arbitrary: t cs)
  case Nil
  then show ?case by (simp add: ret_def)
next
  case (Cons i ids)
  from Cons.prems obtain c cs' t2 where
    c: "respond C t (GetResource Clusters i) = Inr c"
    and rest: "get_clusters C ids (t @ [Called (GetResource Clusters i) (Inr c)]) = (Inr cs', t1)"
    and cs: "cs = c # cs'"
    by (auto simp: act_defs split: sum.splits prod.splits)
  from Cons.IH[OF rest] cs show ?case by simp
qed

lemma map_of_fold_update:
  "map_of (fold (\<lambda>p d. AList.update (fst p) (snd p) d) pairs acc) k =
     (case map_of (rev pairs) k of Some v \<Rightarrow> Some v | None \<Rightarrow> map_of acc k)"
  by (induction pairs arbitrary: acc) (auto simp: update_conv' map_add_def split: option.splits)

lemma update_fresh: "k \<notin> fst ` set al \<Longrightarrow> AList.update k v al = al @ [(k, v)]"
  by (induction al) auto

lemma fold_update_distinct:
  "distinct (map fst pairs) \<Longrightarrow> fst ` set pairs \<inter> fst ` set acc = {} \<Longrightarrow>
     fold (\<lambda>p d. AList.update (fst p) (snd p) d) pairs acc = acc @ pairs"
proof (induction pairs arbitrary: acc)
  case Nil
  then show ?case by simp
next
  case (Cons p pairs)
  have 1: "AList.update (fst p) (snd p) acc = acc @ [p]"
    using Cons.prems(2) by (simp add: update_fresh)
  have 2: "fst ` set pairs \<inter> fst ` set (acc @ [p]) = {}"
    using Cons.prems by auto
  from Cons.IH[OF _ 2] Cons.prems(1) show ?case by (simp add: 1)
qed

lemma names_to_ids_run:
  "names_to_ids acc cs = Inr out \<Longrightarrow>
     \<exists>pairs. list_all2 (\<lambda>c p. getattr c ''name'' = Inr (JStr (fst p)) \<and>
                               getattr c ''id'' = Inr (snd p)) cs pairs \<and>
             out = fold (\<lambda>p d. AList.update (fst p) (snd p) d) pairs acc"
proof (induction cs arbitrary: acc)
  case Nil
  then show ?case by simp
next
  case (Cons c cs)
  from Cons.prems obtain n i where n: "getattr c ''name'' = Inr (JStr n)"
    and i: "getattr c ''id'' = Inr i"
    and rest: "names_to_ids (AList.update n i acc) cs = Inr out"
    by (auto simp: ebind_def split: sum.splits pyval.splits)
  from Cons.IH[OF rest] obtain pairs where
    "list_all2 (\<lambda>c p. getattr c ''name'' = Inr (JStr (fst p)) \<and>
                      getattr c ''id'' = Inr (snd p)) cs pairs"
    "out = fold (\<lambda>p d. AList.update (fst p) (snd p) d) pairs (AList.update n i acc)"
    by blast
  with n i show ?case by (intro exI[of _ "(n, i) # pairs"]) simp
qed

lemma create_many_run:
  assumes "create_many C w data t1 = (Inr out, t')"
  shows "\<exists>l ids cs post.
     map_of data ''clusters'' = Some l \<and> iter_items l = Inr ids \<and> length cs = length ids \<and>
     t' = t1 @ map2 (\<lambda>i c. Called (GetResource Clusters i) (Inr c)) ids cs @ post \<and>
     names_to_ids [] cs = Inr out"
proof -
  from assms obtain l ids cs t2 u t3 where
    l: "dict_lookup data ''clusters'' = Inr l" and ids: "iter_items l = Inr ids"
    and g: "get_clusters C ids t1 = (Inr cs, t2)"
    and w: "(if w then wait_each_create C data cs else ret ()) t2 = (Inr u, t3)"
    and n: "names_to_ids [] cs = Inr out" and t': "t' = t3"
    unfolding create_many_def
    by (auto dest!: andthen_InrD lift_InrD)
  have "exact 0 (if w then wait_each_create C data cs else ret ())"
    by (simp add: exact_wait_each_create exact_ret)
  from quiet_ext[OF this, of t2] w obtain post where post: "t3 = t2 @ post" by auto
  from l have "map_of data ''clusters'' = Some l"
    by (simp add: dict_lookup_def split: option.splits)
  with ids get_clusters_run[OF g] n t' post show ?thesis by auto
qed

lemma first_phase_run:
  assumes "(case given (ca_json a) of
              Some path \<Rightarrow> create_from_json C path (opt_int (ca_count a))
            | None \<Rightarrow> create_from_flags C a) t = (Inr (data, count), t1)"
  shows "count = effective_count C a t \<and> t1 \<noteq> [] \<and>
         (\<exists>kw r. last t1 = Called (ClustersCreate kw) (Inr r) \<and> to_dict r = Inr data)"
proof (cases "given (ca_json a)")
  case None
  with assms have run: "create_from_flags C a t = (Inr (data, count), t1)" by simp
  then show ?thesis using None
    unfolding create_from_flags_def effective_count_def
    by (auto simp: act_defs split: option.splits sum.splits prod.splits)
next
  case (Some path)
  with assms have run: "create_from_json C path (opt_int (ca_count a)) t = (Inr (data, count), t1)"
    by simp
  then show ?thesis using Some
    unfolding create_from_json_def load_template_def effective_count_def Let_def
    by (auto simp: act_defs map_of_rename_net_id
        split: option.splits sum.splits prod.splits pyval.splits if_splits)
qed


text \<open>
  Claim C3, as amended. When CreateCluster returns and the effective count is an integer
  above one, the run made its create call, read the list under \<^verbatim>\<open>clusters\<close> of the
  response and fetched one cluster per id of the list, in order; the returned table maps
  the name of every fetched cluster to the id of the last fetched cluster with that name,
  and is exactly the list of (name, id) pairs, one per id in list order, when the names
  are pairwise distinct; the ids are passed through as they are, no reshaping is applied.
  When the effective count is absent or 1 the returned table is the reshaped
  single-cluster record.
\<close>

theorem C3_batch_or_single:
  "CreateCluster_take_action C a t = (Inr out, t') \<longrightarrow>
     (effective_count C a t = JInt n \<and> 1 < n \<longrightarrow>
        (\<exists>t1 kw r data l ids cs pairs post.
           t' = t1 @ map2 (\<lambda>i c. Called (GetResource Clusters i) (Inr c)) ids cs @ post \<and>
           t1 \<noteq> [] \<and> last t1 = Called (ClustersCreate kw) (Inr r) \<and> to_dict r = Inr data \<and>
           map_of data ''clusters'' = Some l \<and> iter_items l = Inr ids \<and>
           length cs = length ids \<and>
           list_all2 (\<lambda>c p. getattr c ''name'' = Inr (JStr (fst p)) \<and>
                             getattr c ''id'' = Inr (snd p)) cs pairs \<and>
           map_of out = map_of (rev pairs) \<and>
           (distinct (map fst pairs) \<longrightarrow> out = pairs))) \<and>
     (effective_count C a t = JNone \<or> effective_count C a t = JInt 1 \<longrightarrow>
        (\<exists>rec. display C rec t' = (Inr out, t')))"
proof (intro impI conjI)
  assume run: "CreateCluster_take_action C a t = (Inr out, t')"
  from run obtain data count t1 many where
    first: "(case given (ca_json a) of
              Some path \<Rightarrow> create_from_json C path (opt_int (ca_count a))
            | None \<Rightarrow> create_from_flags C a) t = (Inr (data, count), t1)"
    and many: "count_gt_1 count = Inr many"
    and second: "(if many then create_many C (ca_wait a) data
                  else create_one C (ca_wait a) data) t1 = (Inr out, t')"
    unfolding CreateCluster_take_action_def
    by (auto dest!: andthen_InrD lift_InrD)
  from first_phase_run[OF first] obtain kw r where
    count: "count = effective_count C a t" and t1: "t1 \<noteq> []"
    and last: "last t1 = Called (ClustersCreate kw) (Inr r)" and r: "to_dict r = Inr data"
    by blast
  {
    assume eff: "effective_count C a t = JInt n \<and> 1 < n"
    with many count have "many" by auto
    with second have cm: "create_many C (ca_wait a) data t1 = (Inr out, t')" by simp
    from create_many_run[OF cm] obtain l ids cs post where
      l: "map_of data ''clusters'' = Some l" "iter_items l = Inr ids" "length cs = length ids"
      and t': "t' = t1 @ map2 (\<lambda>i c. Called (GetResource Clusters i) (Inr c)) ids cs @ post"
      and n: "names_to_ids [] cs = Inr out"
      by blast
    from names_to_ids_run[OF n] obtain pairs where
      p: "list_all2 (\<lambda>c p. getattr c ''name'' = Inr (JStr (fst p)) \<and>
                             getattr c ''id'' = Inr (snd p)) cs pairs"
      and out: "out = fold (\<lambda>p d. AList.update (fst p) (snd p) d) pairs []"
      by blast
    have m: "map_of out = map_of (rev pairs)"
      unfolding out by (rule ext) (simp add: map_of_fold_update split: option.splits)
    have d: "distinct (map fst pairs) \<longrightarrow> out = pairs"
      unfolding out using fold_update_distinct[of pairs "[]"] by simp
    from t' t1 last r l p m d
    show "\<exists>t1 kw r data l ids cs pairs post.
           t' = t1 @ map2 (\<lambda>i c. Called (GetResource Clusters i) (Inr c)) ids cs @ post \<and>
           t1 \<noteq> [] \<and> last t1 = Called (ClustersCreate kw) (Inr r) \<and> to_dict r = Inr data \<and>
           map_of data ''clusters'' = Some l \<and> iter_items l = Inr ids \<and>
           length cs = length ids \<and>
           list_all2 (\<lambda>c p. getattr c ''name'' = Inr (JStr (fst p)) \<and>
                             getattr c ''id'' = Inr (snd p)) cs pairs \<and>
           map_of out = map_of (rev pairs) \<and>
           (distinct (map fst pairs) \<longrightarrow> out = pairs)"
      by blast
  }
  {
    assume "effective_count C a t = JNone \<or> effective_count C a t = JInt 1"
    with many count have "\<not> many" by auto
    with second have "create_one C (ca_wait a) data t1 = (Inr out, t')" by simp
    then show "\<exists>rec. display C rec t' = (Inr out, t')" by (rule create_one_displays)
  }
qed

text \<open>Two clusters created with \<^verbatim>\<open>--count 2\<close>.\<close>

theorem C3_witness:
  "fst (CreateCluster_take_action (demo []) (demo_create_args\<lparr>ca_count := Some 2\<rparr>) []) =
     Inr [(''alpha'', JStr ''c1''), (''beta'', JStr ''c2'')] \<and>
   effective_count (demo []) (demo_create_args\<lparr>ca_count := Some 2\<rparr>) [] = JInt 2 \<and>
   (\<exists>t1 kw r data l ids cs pairs post.
      snd (CreateCluster_take_action (demo []) (demo_create_args\<lparr>ca_count := Some 2\<rparr>) []) =
        t1 @ map2 (\<lambda>i c. Called (GetResource Clusters i) (Inr c)) ids cs @ post \<and>
      t1 \<noteq> [] \<and> last t1 = Called (ClustersCreate kw) (Inr r) \<and> to_dict r = Inr data \<and>
      map_of data ''clusters'' = Some l \<and> iter_items l = Inr ids \<and>
      length cs = length ids \<and>
      list_all2 (\<lambda>c p. getattr c ''name'' = Inr (JStr (fst p)) \<and>
                        getattr c ''id'' = Inr (snd p)) cs pairs \<and>
      map_of [(''alpha'', JStr ''c1''), (''beta'', JStr ''c2'')] = map_of (rev pairs) \<and>
      (distinct (map fst pairs) \<longrightarrow>
         [(''alpha'', JStr ''c1''), (''beta'', JStr ''c2'')] = pairs))"
proof -
  let ?a = "demo_create_args\<lparr>ca_count := Some 2\<rparr>"
  let ?out = "[(''alpha'', JStr ''c1''), (''beta'', JStr ''c2'')]"
  have f: "fst (CreateCluster_take_action (demo []) ?a []) = Inr ?out"
    by code_simp
  then have run: "CreateCluster_take_action (demo []) ?a [] =
      (Inr ?out, snd (CreateCluster_take_action (demo []) ?a []))"
    by (metis prod.collapse)
  have eff: "effective_count (demo []) ?a [] = JInt 2 \<and> (1::int) < 2"
    by (simp add: effective_count_def demo_create_args_def)
  note c = C3_batch_or_single[where C = "demo []" and a = ?a and t = "[]" and out = ?out
      and n = 2, rule_format, OF run, THEN conjunct1, rule_format, OF eff]
  show ?thesis
  proof (intro conjI)
    show "fst (CreateCluster_take_action (demo []) ?a []) = Inr ?out" by (rule f)
    show "effective_count (demo []) ?a [] = JInt 2" using eff by simp
  qed (rule c)
qed

text \<open>
  Claim C3 as stated fails when two created clusters bear the same name: the response
  lists three ids, the three clusters are fetched, and the table has two entries, the
  name \<^verbatim>\<open>alpha\<close> mapped to the id of the third cluster.
\<close>

theorem C3_counterexample:
  "fst (CreateCluster_take_action (demo []) (demo_create_args\<lparr>ca_count := Some 3\<rparr>) []) =
     Inr [(''alpha'', JStr ''c3''), (''beta'', JStr ''c2'')] \<and>
   filter (\<lambda>e. case e of Called (GetResource Clusters i) r \<Rightarrow> True | _ \<Rightarrow> False)
     (snd (CreateCluster_take_action (demo []) (demo_create_args\<lparr>ca_count := Some 3\<rparr>) [])) =
     [Called (GetResource Clusters (JStr ''c1'')) (Inr (Resource (demo_cluster ''c1'' ''alpha''))),
      Called (GetResource Clusters (JStr ''c2'')) (Inr (Resource (demo_cluster ''c2'' ''beta''))),
      Called (GetResource Clusters (JStr ''c3'')) (Inr (Resource (demo_cluster ''c3'' ''alpha'')))]"
  by code_simp

subsection \<open>The scale request\<close>

lemma split_colon_pair:
  "split_colon x = [k, v] \<Longrightarrow> CHR '':'' \<in> set x \<and> (k, v) = split_pair x"
  by (auto simp: split_colon_def split_pair_def split: if_splits)

lemma dict_of_splits_run:
  "dict_of_splits d xs = Inr items \<Longrightarrow>
     list_all (\<lambda>x. CHR '':'' \<in> set x) xs \<and>
     items = fold (\<lambda>p d. AList.update (fst p) (snd p) d) (map split_pair xs) d"
proof (induction xs arbitrary: d)
  case Nil
  then show ?case by simp
next
  case (Cons x xs)
  from Cons.prems obtain k v where kv: "split_colon x = [k, v]"
    and rest: "dict_of_splits (AList.update k v d) xs = Inr items"
    by (auto split: list.splits)
  from split_colon_pair[OF kv] Cons.IH[OF rest] show ?case
    by (auto simp: fst_def snd_def split: prod.splits)
qed

lemma distinct_fold_update:
  "distinct (map fst acc) \<Longrightarrow>
     distinct (map fst (fold (\<lambda>p d. AList.update (fst p) (snd p) d) pairs acc))"
  by (induction pairs arbitrary: acc) (simp_all add: distinct_update)

lemma scale_each_run:
  "scale_each C cngs items acc t = (Inr acc', t1) \<Longrightarrow>
     \<exists>ngs adds resizes.
       length ngs = length items \<and>
       t1 = t @ map2 (\<lambda>it ng. Called (GetResource NodeGroupTemplates (JStr (fst it))) (Inr ng))
                  items ngs \<and>
       acc' = (fst acc @ adds, snd acc @ resizes) \<and>
       list_all2 (resize_entry C) (filter (in_cluster cngs) (zip items ngs)) resizes \<and>
       list_all2 (add_entry C) (filter (\<lambda>x. \<not> in_cluster cngs x) (zip items ngs)) adds"
proof (induction items arbitrary: acc t)
  case Nil
  then show ?case by (simp add: ret_def)
next
  case (Cons it items)
  obtain name count where it: "it = (name, count)" by (cases it)
  let ?ev = "\<lambda>ng. Called (GetResource NodeGroupTemplates (JStr name)) (Inr ng)"
  from Cons.prems[unfolded it] obtain ng v n where
    ng: "respond C t (GetResource NodeGroupTemplates (JStr name)) = Inr ng"
    and v: "getattr ng ''name'' = Inr v" and n: "int_of C count = Inr n"
    by (auto simp: act_defs split: sum.splits prod.splits if_splits)
  from n obtain k where k: "py_int C count = Some k" "n = JInt k"
    by (auto simp: int_of_def split: option.splits)
  show ?case
  proof (cases "v \<in> set cngs")
    case True
    with Cons.prems[unfolded it] ng v n have rest:
      "scale_each C cngs items
         (fst acc, snd acc @ [JDict [(''name'', v), (''count'', n)]]) (t @ [?ev ng]) = (Inr acc', t1)"
      by (simp add: act_defs)
    from Cons.IH[OF rest] obtain ngs adds resizes where
      IH: "length ngs = length items"
      "t1 = (t @ [?ev ng]) @
         map2 (\<lambda>it ng. Called (GetResource NodeGroupTemplates (JStr (fst it))) (Inr ng)) items ngs"
      "acc' = (fst acc @ adds, (snd acc @ [JDict [(''name'', v), (''count'', n)]]) @ resizes)"
      "list_all2 (resize_entry C) (filter (in_cluster cngs) (zip items ngs)) resizes"
      "list_all2 (add_entry C) (filter (\<lambda>x. \<not> in_cluster cngs x) (zip items ngs)) adds"
      by auto
    have inc: "in_cluster cngs ((name, count), ng)"
      using True v by (simp add: in_cluster_def)
    have re: "resize_entry C ((name, count), ng) (JDict [(''name'', v), (''count'', n)])"
      using v k by (simp add: resize_entry_def)
    show ?thesis
      apply (rule exI[of _ "ng # ngs"], rule exI[of _ adds],
          rule exI[of _ "JDict [(''name'', v), (''count'', n)] # resizes"])
      using IH inc re it by simp
  next
    case False
    with Cons.prems[unfolded it] ng v n obtain i where i: "getattr ng ''id'' = Inr i"
      and rest:
      "scale_each C cngs items
         (fst acc @ [JDict [(''node_group_template_id'', i), (''name'', v), (''count'', n)]],
          snd acc) (t @ [?ev ng]) = (Inr acc', t1)"
      by (auto simp: act_defs split: sum.splits)
    from Cons.IH[OF rest] obtain ngs adds resizes where
      IH: "length ngs = length items"
      "t1 = (t @ [?ev ng]) @
         map2 (\<lambda>it ng. Called (GetResource NodeGroupTemplates (JStr (fst it))) (Inr ng)) items ngs"
      "acc' = ((fst acc @ [JDict [(''node_group_template_id'', i), (''name'', v), (''count'', n)]])
                 @ adds, snd acc @ resizes)"
      "list_all2 (resize_entry C) (filter (in_cluster cngs) (zip items ngs)) resizes"
      "list_all2 (add_entry C) (filter (\<lambda>x. \<not> in_cluster cngs x) (zip items ngs)) adds"
      by auto
    have inc: "\<not> in_cluster cngs ((name, count), ng)"
      using False v by (simp add: in_cluster_def)
    have ae: "add_entry C ((name, count), ng)
        (JDict [(''node_group_template_id'', i), (''name'', v), (''count'', n)])"
      using v k i by (simp add: add_entry_def)
    show ?thesis
      apply (rule exI[of _ "ng # ngs"],
          rule exI[of _ "JDict [(''node_group_template_id'', i), (''name'', v), (''count'', n)] # adds"],
          rule exI[of _ resizes])
      using IH inc ae it by simp
  qed
qed


lemma call_InrD:
  "call C req t = (Inr x, t1) \<Longrightarrow> respond C t req = Inr x \<and> t1 = t @ [Called req (Inr x)]"
  by (auto simp: call_def)

lemma scale_from_flags_run:
  assumes "scale_from_flags C cl ngs0 t0 = (Inr data, t1)"
  shows "\<exists>xs items v ngl cngs ngs add resize cid r.
     ngs0 = Some xs \<and> dict_of_splits [] xs = Inr items \<and>
     getattr cl ''node_groups'' = Inr v \<and> iter_items v = Inr ngl \<and>
     emap (\<lambda>ng. getitem ng ''name'') ngl = Inr cngs \<and>
     length ngs = length items \<and>
     list_all2 (resize_entry C) (filter (in_cluster cngs) (zip items ngs)) resize \<and>
     list_all2 (add_entry C) (filter (\<lambda>x. \<not> in_cluster cngs x) (zip items ngs)) add \<and>
     getattr cl ''id'' = Inr cid \<and>
     t1 = t0 @ map2 (\<lambda>it ng. Called (GetResource NodeGroupTemplates (JStr (fst it))) (Inr ng))
                 items ngs
             @ [Called (ClustersScale cid (JDict (scale_object (add, resize)))) (Inr r)] \<and>
     getattr r ''cluster'' = Inr data"
proof -
  from assms obtain xs where xs: "ngs0 = Some xs"
    by (cases ngs0) (auto simp: scale_from_flags_def throw_def)
  from assms[unfolded xs] obtain items v ngl cngs acc t2 cid r where
    items: "dict_of_splits [] xs = Inr items"
    and v: "getattr cl ''node_groups'' = Inr v" and ngl: "iter_items v = Inr ngl"
    and cngs: "emap (\<lambda>ng. getitem ng ''name'') ngl = Inr cngs"
    and loop: "scale_each C cngs items ([], []) t0 = (Inr acc, t2)"
    and cid: "getattr cl ''id'' = Inr cid"
    and r: "respond C t2 (ClustersScale cid (JDict (scale_object acc))) = Inr r"
    and t1: "t1 = t2 @ [Called (ClustersScale cid (JDict (scale_object acc))) (Inr r)]"
    and data: "getattr r ''cluster'' = Inr data"
    unfolding scale_from_flags_def
    by (auto dest!: andthen_InrD lift_InrD call_InrD)
  from scale_each_run[OF loop] obtain ngs adds resizes where
    "length ngs = length items"
    "t2 = t0 @ map2 (\<lambda>it ng. Called (GetResource NodeGroupTemplates (JStr (fst it))) (Inr ng))
                 items ngs"
    "acc = (adds, resizes)"
    "list_all2 (resize_entry C) (filter (in_cluster cngs) (zip items ngs)) resizes"
    "list_all2 (add_entry C) (filter (\<lambda>x. \<not> in_cluster cngs x) (zip items ngs)) adds"
    by auto
  with xs items v ngl cngs cid t1 data show ?thesis by auto
qed

lemma exact_scale_rest:
  "exact 0 (andthen (if w then scale_wait C cl data else ret data) (\<lambda>data'. display C data'))"
  by (auto intro!: quiet_intros exact_scale_wait exact_display)

text \<open>
  Claim C9. Without \<^verbatim>\<open>--json\<close>, when the lookup of the cluster returned and lines 481 to
  506 ran to the end: every node-group argument has a colon; the pairs were collected
  into a dictionary with one item per name, holding the count of the last argument with
  that name; each item was resolved to a node group template, in the order of the items;
  the request sent is for the id of the looked-up cluster and lists under
  \<^verbatim>\<open>resize_node_groups\<close> the entries (name, count) of the templates whose name is the name
  of a node group of the cluster, and under \<^verbatim>\<open>add_node_groups\<close> the entries (template id,
  name, count) of the others; a list that is empty is absent from the request, which has
  no other key; it is the only acting call of the run.
\<close>

theorem C9_scale_request:
  "given (sa_json a) = None \<and>
   respond C t (GetResource Clusters (JStr (sa_cluster a))) = Inr cl \<and>
   scale_from_flags C cl (sa_node_groups a)
     (t @ [Called (GetResource Clusters (JStr (sa_cluster a))) (Inr cl)]) = (Inr data, t1) \<longrightarrow>
   (\<exists>xs items v ngl cngs ngs add resize cid r rest.
      sa_node_groups a = Some xs \<and> list_all (\<lambda>x. CHR '':'' \<in> set x) xs \<and>
      map_of items = map_of (rev (map split_pair xs)) \<and> distinct (map fst items) \<and>
      getattr cl ''node_groups'' = Inr v \<and> iter_items v = Inr ngl \<and>
      emap (\<lambda>ng. getitem ng ''name'') ngl = Inr cngs \<and>
      length ngs = length items \<and>
      list_all2 (resize_entry C) (filter (in_cluster cngs) (zip items ngs)) resize \<and>
      list_all2 (add_entry C) (filter (\<lambda>x. \<not> in_cluster cngs x) (zip items ngs)) add \<and>
      getattr cl ''id'' = Inr cid \<and>
      t1 = t @ [Called (GetResource Clusters (JStr (sa_cluster a))) (Inr cl)]
             @ map2 (\<lambda>it ng. Called (GetResource NodeGroupTemplates (JStr (fst it))) (Inr ng))
                 items ngs
             @ [Called (ClustersScale cid (JDict (scale_object (add, resize)))) (Inr r)] \<and>
      map_of (scale_object (add, resize)) ''add_node_groups'' =
        (if add = [] then None else Some (JList add)) \<and>
      map_of (scale_object (add, resize)) ''resize_node_groups'' =
        (if resize = [] then None else Some (JList resize)) \<and>
      set (map fst (scale_object (add, resize))) \<subseteq> {''add_node_groups'', ''resize_node_groups''} \<and>
      snd (ScaleCluster_take_action C a t) = t1 @ rest \<and> filter acts rest = [])"
proof
  assume h: "given (sa_json a) = None \<and>
   respond C t (GetResource Clusters (JStr (sa_cluster a))) = Inr cl \<and>
   scale_from_flags C cl (sa_node_groups a)
     (t @ [Called (GetResource Clusters (JStr (sa_cluster a))) (Inr cl)]) = (Inr data, t1)"
  let ?t0 = "t @ [Called (GetResource Clusters (JStr (sa_cluster a))) (Inr cl)]"
  from h have run: "scale_from_flags C cl (sa_node_groups a) ?t0 = (Inr data, t1)" by simp
  from scale_from_flags_run[OF run] obtain xs items v ngl cngs ngs add resize cid r where
    f: "sa_node_groups a = Some xs" "dict_of_splits [] xs = Inr items"
      "getattr cl ''node_groups'' = Inr v" "iter_items v = Inr ngl"
      "emap (\<lambda>ng. getitem ng ''name'') ngl = Inr cngs"
      "length ngs = length items"
      "list_all2 (resize_entry C) (filter (in_cluster cngs) (zip items ngs)) resize"
      "list_all2 (add_entry C) (filter (\<lambda>x. \<not> in_cluster cngs x) (zip items ngs)) add"
      "getattr cl ''id'' = Inr cid"
    and t1: "t1 = ?t0 @ map2 (\<lambda>it ng. Called (GetResource NodeGroupTemplates (JStr (fst it))) (Inr ng))
                 items ngs
             @ [Called (ClustersScale cid (JDict (scale_object (add, resize)))) (Inr r)]"
    by blast
  from dict_of_splits_run[OF f(2)] have colon: "list_all (\<lambda>x. CHR '':'' \<in> set x) xs"
    and items: "items = fold (\<lambda>p d. AList.update (fst p) (snd p) d) (map split_pair xs) []"
    by simp_all
  have m: "map_of items = map_of (rev (map split_pair xs))"
    unfolding items by (rule ext) (simp add: map_of_fold_update rev_map split: option.splits)
  have d: "distinct (map fst items)"
    unfolding items by (rule distinct_fold_update) simp
  have so: "map_of (scale_object (add, resize)) ''add_node_groups'' =
        (if add = [] then None else Some (JList add))"
    "map_of (scale_object (add, resize)) ''resize_node_groups'' =
        (if resize = [] then None else Some (JList resize))"
    "set (map fst (scale_object (add, resize))) \<subseteq> {''add_node_groups'', ''resize_node_groups''}"
    by (auto simp: scale_object_def)
  have "ScaleCluster_take_action C a t =
      andthen (if sa_wait a then scale_wait C cl data else ret data) (\<lambda>data'. display C data') t1"
    using h by (simp add: ScaleCluster_take_action_def act_defs)
  with quiet_ext[OF exact_scale_rest, of "sa_wait a" C cl data t1]
  obtain rest where rest: "snd (ScaleCluster_take_action C a t) = t1 @ rest"
    "filter acts rest = []" by auto
  from f(1) colon m d f(3-9) t1 so rest
  show "\<exists>xs items v ngl cngs ngs add resize cid r rest.
      sa_node_groups a = Some xs \<and> list_all (\<lambda>x. CHR '':'' \<in> set x) xs \<and>
      map_of items = map_of (rev (map split_pair xs)) \<and> distinct (map fst items) \<and>
      getattr cl ''node_groups'' = Inr v \<and> iter_items v = Inr ngl \<and>
      emap (\<lambda>ng. getitem ng ''name'') ngl = Inr cngs \<and>
      length ngs = length items \<and>
      list_all2 (resize_entry C) (filter (in_cluster cngs) (zip items ngs)) resize \<and>
      list_all2 (add_entry C) (filter (\<lambda>x. \<not> in_cluster cngs x) (zip items ngs)) add \<and>
      getattr cl ''id'' = Inr cid \<and>
      t1 = t @ [Called (GetResource Clusters (JStr (sa_cluster a))) (Inr cl)]
             @ map2 (\<lambda>it ng. Called (GetResource NodeGroupTemplates (JStr (fst it))) (Inr ng))
                 items ngs
             @ [Called (ClustersScale cid (JDict (scale_object (add, resize)))) (Inr r)] \<and>
      map_of (scale_object (add, resize)) ''add_node_groups'' =
        (if add = [] then None else Some (JList add)) \<and>
      map_of (scale_object (add, resize)) ''resize_node_groups'' =
        (if resize = [] then None else Some (JList resize)) \<and>
      set (map fst (scale_object (add, resize))) \<subseteq> {''add_node_groups'', ''resize_node_groups''} \<and>
      snd (ScaleCluster_take_action C a t) = t1 @ rest \<and> filter acts rest = []"
    apply (intro exI conjI)
                   apply assumption+
          apply simp
         apply assumption+
    done
qed


text \<open>
  Scaling the example cluster with \<^verbatim>\<open>worker:5 extra:2 worker:7\<close>: worker is resized to 7,
  extra is added.
\<close>

theorem C9_witness:
  "fst (scale_from_flags (demo []) (Resource (demo_cluster ''c1'' ''alpha''))
          (sa_node_groups demo_scale_args)
          ([] @ [Called (GetResource Clusters (JStr (sa_cluster demo_scale_args)))
                   (Inr (Resource (demo_cluster ''c1'' ''alpha'')))]))
     = Inr (JDict (demo_cluster ''c1'' ''alpha'')) \<and>
   (case last (snd (ScaleCluster_take_action (demo []) demo_scale_args [])) of
      Called q resp \<Rightarrow>
        q = ClustersScale (JStr ''c1'')
              (JDict [(''add_node_groups'',
                         JList [JDict [(''node_group_template_id'', JStr ''ngt-extra''),
                                       (''name'', JStr ''extra''), (''count'', JInt 2)]]),
                      (''resize_node_groups'',
                         JList [JDict [(''name'', JStr ''worker''), (''count'', JInt 7)]])])
    | LogError m x \<Rightarrow> False) \<and>
   (\<exists>rest. snd (ScaleCluster_take_action (demo []) demo_scale_args []) =
      snd (scale_from_flags (demo []) (Resource (demo_cluster ''c1'' ''alpha''))
          (sa_node_groups demo_scale_args)
          ([] @ [Called (GetResource Clusters (JStr (sa_cluster demo_scale_args)))
                   (Inr (Resource (demo_cluster ''c1'' ''alpha'')))])) @ rest \<and>
      filter acts rest = [])"
proof -
  let ?cl = "Resource (demo_cluster ''c1'' ''alpha'')"
  let ?run = "scale_from_flags (demo []) ?cl (sa_node_groups demo_scale_args)
          ([] @ [Called (GetResource Clusters (JStr (sa_cluster demo_scale_args))) (Inr ?cl)])"
  have h1: "given (sa_json demo_scale_args) = None"
    by (simp add: demo_scale_args_def)
  have h2: "respond (demo []) [] (GetResource Clusters (JStr (sa_cluster demo_scale_args)))
      = Inr ?cl"
    by (simp add: demo_def demo_respond_def demo_scale_args_def)
  have f: "fst ?run = Inr (JDict (demo_cluster ''c1'' ''alpha''))"
    by code_simp
  then have run: "?run = (Inr (JDict (demo_cluster ''c1'' ''alpha'')), snd ?run)"
    by (metis prod.collapse)
  have q: "(case last (snd (ScaleCluster_take_action (demo []) demo_scale_args [])) of
      Called q resp \<Rightarrow>
        q = ClustersScale (JStr ''c1'')
              (JDict [(''add_node_groups'',
                         JList [JDict [(''node_group_template_id'', JStr ''ngt-extra''),
                                       (''name'', JStr ''extra''), (''count'', JInt 2)]]),
                      (''resize_node_groups'',
                         JList [JDict [(''name'', JStr ''worker''), (''count'', JInt 7)]])])
    | LogError m x \<Rightarrow> False)"
    by code_simp
  from C9_scale_request[where C = "demo []" and a = demo_scale_args and t = "[]" and cl = ?cl
      and data = "JDict (demo_cluster ''c1'' ''alpha'')" and ?t1.0 = "snd ?run",
      rule_format, OF conjI[OF h1 conjI[OF h2 run]]]
  have "\<exists>rest. snd (ScaleCluster_take_action (demo []) demo_scale_args []) = snd ?run @ rest \<and>
      filter acts rest = []"
    by (elim exE conjE) (rule exI, rule conjI, assumption, assumption)
  with f q show ?thesis by (intro conjI)
qed

end
